theory Spec2Isabelle
  imports Main "HOL-Library.Sublist"
begin

section \<open>Python values shared by the modules\<close>

text \<open>
  A Python \<open>str\<close> is modelled as a \<open>string\<close> (a list of characters, read as code
  points below 256). An exception is a value: \<open>Exception m\<close> is any exception whose
  \<open>str(e)\<close> is \<open>m\<close>; \<open>HTTPException code detail\<close> is FastAPI's, whose
  \<open>str(e)\<close> is \<open>f"{status_code}: {detail}"\<close> (Starlette's \<open>__str__\<close>).
  A computation that may raise has the type \<open>exn + 'a\<close>, \<open>Inl\<close> being the raise.
\<close>

datatype exn = Exception string | HTTPException nat string

definition digit_char :: "nat \<Rightarrow> char" where
  "digit_char d = char_of (of_char (CHR ''0'') + d)"

fun str_nat :: "nat \<Rightarrow> string" where
  "str_nat n = (if n < 10 then [digit_char n] else str_nat (n div 10) @ [digit_char (n mod 10)])"

declare str_nat.simps [simp del]

fun str_exn :: "exn \<Rightarrow> string" where
  "str_exn (Exception m) = m"
| "str_exn (HTTPException status_code detail) = str_nat status_code @ '': '' @ detail"

definition NL :: char where
  "NL = CHR 0x0A"

text \<open>\<open>sub in s\<close> for strings: \<open>sub\<close> occurs in \<open>s\<close> at some position.\<close>

fun str_contains :: "string \<Rightarrow> string \<Rightarrow> bool" where
  "str_contains sub [] = (sub = [])"
| "str_contains sub (c # s) = (prefix sub (c # s) \<or> str_contains sub s)"

text \<open>
  \<open>s.replace(old, new)\<close>: every occurrence of \<open>old\<close> is replaced, scanning from the left
  and resuming after each replaced occurrence (occurrences do not overlap). With an empty
  \<open>old\<close>, Python inserts \<open>new\<close> before every character and at the end.
\<close>

function str_replace :: "string \<Rightarrow> string \<Rightarrow> string \<Rightarrow> string" where
  "str_replace old new s =
     (if old = [] then new @ concat (map (\<lambda>c. c # new) s)
      else if prefix old s then new @ str_replace old new (drop (length old) s)
      else (case s of [] \<Rightarrow> [] | c # cs \<Rightarrow> c # str_replace old new cs))"
  by pat_completeness auto
termination
  by (relation "measure (\<lambda>(old, new, s). length s)") (auto simp: prefix_def)

declare str_replace.simps [simp del]

text \<open>
  \<open>str.isspace\<close> on one character, for the code points below 256: the ASCII controls
  9 to 13 and 28 to 31, the space, NEL (133) and the no-break space (160).
  \<open>s.strip()\<close> removes the whitespace at both ends.
\<close>

definition isspace :: "char \<Rightarrow> bool" where
  "isspace c = (of_char c \<in> set ([9, 10, 11, 12, 13, 28, 29, 30, 31, 32, 133, 160] :: nat list))"

definition str_strip :: "string \<Rightarrow> string" where
  "str_strip s = rev (dropWhile isspace (rev (dropWhile isspace s)))"

section \<open>tools.py: the financial document reader\<close>

text \<open>
  The file system and pdfplumber are the tool's environment. A path either does not exist
  (\<open>None\<close>) or names an entry: one that \<open>pdfplumber.open\<close> cannot open or parse (a
  directory, an unreadable or corrupt file), raising the given exception, or a PDF with its
  pages in order. A page's \<open>extract_text()\<close> raises, or returns \<open>None\<close> or a string.
\<close>

type_synonym page = "exn + string option"

datatype entry = OpenRaises exn | Pdf "page list"

type_synonym filesystem = "string \<Rightarrow> entry option"

definition os_path_exists :: "filesystem \<Rightarrow> string \<Rightarrow> bool" where
  "os_path_exists fs path = (fs path \<noteq> None)"

definition pdfplumber_open :: "filesystem \<Rightarrow> string \<Rightarrow> exn + page list" where
  "pdfplumber_open fs path =
     (case fs path of
        None \<Rightarrow> Inl (Exception (''[Errno 2] No such file or directory: '' @ path))
      | Some (OpenRaises e) \<Rightarrow> Inl e
      | Some (Pdf pages) \<Rightarrow> Inr pages)"

definition extract_text :: "page \<Rightarrow> exn + string option" where
  "extract_text page = page"

text \<open>\<open>x or ""\<close>: \<open>None\<close> and the empty string both give the empty string.\<close>

definition or_empty :: "string option \<Rightarrow> string" where
  "or_empty t = (case t of None \<Rightarrow> [] | Some s \<Rightarrow> s)"

text \<open>The inner loop: \<open>while "\n\n" in text: text = text.replace("\n\n", "\n")\<close>.\<close>

function collapse :: "string \<Rightarrow> string" where
  "collapse text =
     (if str_contains [NL, NL] text then collapse (str_replace [NL, NL] [NL] text) else text)"
  by pat_completeness auto

text \<open>
  The loop's replacement, specialised to \<open>old = "\n\n"\<close> and \<open>new = "\n"\<close>; it serves
  the termination proof and the lemmas below.
\<close>

fun replace_nn :: "string \<Rightarrow> string" where
  "replace_nn (a # b # s) =
     (if a = NL \<and> b = NL then NL # replace_nn s else a # replace_nn (b # s))"
| "replace_nn s = s"

lemma str_replace_nn: "str_replace [NL, NL] [NL] s = replace_nn s"
proof (induction s rule: replace_nn.induct)
  case (1 a b s)
  then show ?case by (subst str_replace.simps) auto
qed (simp_all add: str_replace.simps [of _ _ "[]"] str_replace.simps [of _ _ "[x]" for x])

lemma str_contains_nn_simps:
  "str_contains [NL, NL] (a # b # s) = ((a = NL \<and> b = NL) \<or> str_contains [NL, NL] (b # s))"
  "str_contains [NL, NL] [c] = False"
  "str_contains [NL, NL] [] = False"
  by auto

lemma length_replace_nn_le: "length (replace_nn s) \<le> length s"
  by (induction s rule: replace_nn.induct) auto

lemma length_replace_nn_less:
  "str_contains [NL, NL] s \<Longrightarrow> length (replace_nn s) < length s"
proof (induction s rule: replace_nn.induct)
  case (1 a b s)
  then show ?case
    using length_replace_nn_le [of s]
    by (auto simp del: str_contains.simps simp: str_contains_nn_simps)
qed auto

termination collapse
  by (relation "measure length")
    (auto simp: str_replace_nn length_replace_nn_less simp del: str_contains.simps)

declare collapse.simps [simp del]

text \<open>
  The loop over \<open>pdf.pages\<close>, with \<open>full_report\<close> as the accumulator. A raising
  \<open>extract_text\<close> leaves the loop at once.
\<close>

fun read_pages :: "page list \<Rightarrow> string \<Rightarrow> exn + string" where
  "read_pages [] full_report = Inr full_report"
| "read_pages (page # pages) full_report =
     (case extract_text page of
        Inl e \<Rightarrow> Inl e
      | Inr t \<Rightarrow>
          (let text = collapse (or_empty t)
           in read_pages pages (full_report @ text @ [NL])))"

text \<open>The body of the \<open>try\<close> block: it raises, or returns the warning or the report.\<close>

definition run_try :: "filesystem \<Rightarrow> string \<Rightarrow> exn + string" where
  "run_try fs path =
     (case pdfplumber_open fs path of
        Inl e \<Rightarrow> Inl e
      | Inr pages \<Rightarrow>
          (case read_pages pages [] of
             Inl e \<Rightarrow> Inl e
           | Inr full_report \<Rightarrow>
               if str_strip full_report = []
               then Inr ''WARNING: No readable text found in the PDF.''
               else Inr full_report))"

text \<open>
  \<open>FinancialDocumentTool._run(path = "data/sample.pdf")\<close>: the argument is optional
  (\<open>None\<close> when the caller gives none). The result type keeps the possibility of a raise,
  so that "never raises" is a statement to prove.
\<close>

definition run :: "filesystem \<Rightarrow> string option \<Rightarrow> exn + string" where
  "run fs arg =
     (let path = (case arg of None \<Rightarrow> ''data/sample.pdf'' | Some p \<Rightarrow> p)
      in if \<not> os_path_exists fs path
         then Inr (''ERROR: File not found at path: '' @ path)
         else (case run_try fs path of
                 Inl e \<Rightarrow> Inr (''ERROR: Failed to read PDF. Details: '' @ str_exn e)
               | Inr r \<Rightarrow> Inr r))"

text \<open>
  The specification's wording of the normalisation, for comparison with \<open>collapse\<close>:
  every run of two or more consecutive newlines becomes a single newline.
\<close>

fun squeeze_newlines :: "string \<Rightarrow> string" where
  "squeeze_newlines (a # b # s) =
     (if a = NL \<and> b = NL then squeeze_newlines (b # s) else a # squeeze_newlines (b # s))"
| "squeeze_newlines s = s"

text \<open>
  \<open>s.split("\n")\<close>: the lines of a text. A blank line is an empty line. The
  specification's sentence "collapsing consecutive blank-line sequences to single blank
  lines", read literally, is \<open>squeeze_blank_lines\<close>: where several blank lines follow one
  another (three or more newlines in a row), one blank line stays (two newlines).
  \<open>drop_inner_blank\<close> removes every blank line that is neither the first nor the last
  line.
\<close>

fun split_lines :: "string \<Rightarrow> string list" where
  "split_lines [] = [[]]"
| "split_lines (c # s) =
     (if c = NL then [] # split_lines s
      else (case split_lines s of [] \<Rightarrow> [[c]] | l # ls \<Rightarrow> (c # l) # ls))"

definition drop_inner_blank :: "string list \<Rightarrow> string list" where
  "drop_inner_blank ls =
     (case ls of
        [] \<Rightarrow> []
      | l # rest \<Rightarrow>
          if rest = [] then [l]
          else l # filter (\<lambda>x. x \<noteq> []) (butlast rest) @ [last rest])"

fun squeeze_blank_lines :: "string \<Rightarrow> string" where
  "squeeze_blank_lines (a # b # c # s) =
     (if a = NL \<and> b = NL \<and> c = NL then squeeze_blank_lines (b # c # s)
      else a # squeeze_blank_lines (b # c # s))"
| "squeeze_blank_lines s = s"

text \<open>Three file systems for the examples: one PDF each, every other path missing.\<close>

definition example_fs :: filesystem where
  "example_fs = (\<lambda>p. if p = ''data/a.pdf''
      then Some (Pdf [Inr (Some (''Revenue'' @ [NL, NL, NL] @ ''100'')), Inr None])
      else None)"

definition blank_line_fs :: filesystem where
  "blank_line_fs = (\<lambda>p. if p = ''data/b.pdf''
      then Some (Pdf [Inr (Some (''a'' @ [NL, NL] @ ''b''))])
      else None)"

definition sample_fs :: filesystem where
  "sample_fs = (\<lambda>p. if p = ''data/sample.pdf''
      then Some (Pdf [Inr (Some ''Total assets: 5'')])
      else None)"

section \<open>agents.py, task.py, worker.py: the crew and the background job\<close>

text \<open>
  The two agents and the two tasks are module-level values. A task is referred to by the
  name of the Python variable that holds it (\<open>label\<close>); an agent by its role.
\<close>

record agent =
  role :: string
  goal :: string
  backstory :: string
  agent_tools :: "string list"
  allow_delegation :: bool

definition financial_analyst :: agent where
  "financial_analyst = \<lparr>
     role = ''Senior Financial Analyst'',
     goal = ''Analyze the provided financial document and answer the user's query accurately: {query}.'',
     backstory = ''You are an experienced financial analyst specializing in corporate financial statements.'',
     agent_tools = [''financial_document_reader''],
     allow_delegation = False \<rparr>"

definition verifier :: agent where
  "verifier = \<lparr>
     role = ''Financial Report Verifier'',
     goal = ''Verify the financial analysis for accuracy and consistency.'',
     backstory = ''You are a meticulous financial auditor.'',
     agent_tools = [],
     allow_delegation = False \<rparr>"

record task =
  label :: string
  description :: string
  expected_output :: string
  task_agent :: agent
  task_tools :: "string list"
  async_execution :: bool

definition analyze_financial_document :: task where
  "analyze_financial_document = \<lparr>
     label = ''analyze_financial_document'',
     description =
       ''Use the financial_document_reader tool to read the PDF at {path}.'' @ [NL, NL] @
       ''STRICT INSTRUCTIONS:'' @ [NL] @
       ''- Base your answer ONLY on the document'' @ [NL] @
       ''You MUST use the financial_document_reader tool before answering'' @ [NL] @
       ''- Do NOT assume missing data'' @ [NL] @
       ''- If information is missing, say 'Not found in document'' @ [CHR 0x27, NL] @
       ''- Quote exact numbers when available'' @ [NL, NL] @
       ''Then answer the user's query: {query}.'' @ [NL, NL] @
       ''Output must include:'' @ [NL] @
       ''1. Key financial metrics (with values)'' @ [NL] @
       ''2. Risks (document-backed only)'' @ [NL] @
       ''3. Opportunities (document-backed only)'' @ [NL] @
       ''4. Final summary'',
     expected_output = ''Structured financial analysis report.'',
     task_agent = financial_analyst,
     task_tools = [''financial_document_reader''],
     async_execution = False \<rparr>"

definition verify_financial_analysis :: task where
  "verify_financial_analysis = \<lparr>
     label = ''verify_financial_analysis'',
     description =
       ''Review the previous financial analysis for accuracy and logical consistency.'',
     expected_output = ''Verified and improved financial analysis.'',
     task_agent = verifier,
     task_tools = [],
     async_execution = False \<rparr>"

datatype process = sequential | hierarchical

record crew =
  agents :: "agent list"
  tasks :: "task list"
  process :: process

definition financial_crew :: crew where
  "financial_crew = \<lparr>
     agents = [financial_analyst, verifier],
     tasks = [analyze_financial_document, verify_financial_analysis],
     process = sequential \<rparr>"

text \<open>
  \<open>Crew.kickoff\<close> belongs to the CrewAI framework, not to the repository; it is modelled
  here as the framework documents its sequential process. The tasks run in list order. A
  task with \<open>async_execution\<close> is started and left running; before a synchronous task
  starts, and at the end, every running task is joined. A synchronous task starts, runs
  to its end (its output, or a raise that ends the whole kickoff) and only then the next
  one is looked at. Each task sees the outputs of the tasks finished before it started.
  The language model behind an agent is the oracle \<open>llm\<close>: the task, the kickoff inputs
  and the context give an output or a raise. The trace records when each task starts and
  ends.
\<close>

datatype event = Started string | Finished string | Failed string

type_synonym inputs = "(string \<times> string) list"

type_synonym llm = "task \<Rightarrow> inputs \<Rightarrow> string list \<Rightarrow> exn + string"

fun join_futures ::
  "llm \<Rightarrow> inputs \<Rightarrow> (task \<times> string list) list \<Rightarrow> string list \<Rightarrow> event list \<Rightarrow>
   event list \<times> (exn + string list)" where
  "join_futures llm inp [] outputs trace = (trace, Inr outputs)"
| "join_futures llm inp ((t, ctx) # futures) outputs trace =
     (case llm t inp ctx of
        Inl e \<Rightarrow> (trace @ [Failed (label t)], Inl e)
      | Inr out \<Rightarrow> join_futures llm inp futures (outputs @ [out]) (trace @ [Finished (label t)]))"

fun execute_tasks ::
  "llm \<Rightarrow> inputs \<Rightarrow> task list \<Rightarrow> string list \<Rightarrow> (task \<times> string list) list \<Rightarrow> event list \<Rightarrow>
   event list \<times> (exn + string list)" where
  "execute_tasks llm inp [] outputs futures trace = join_futures llm inp futures outputs trace"
| "execute_tasks llm inp (t # ts) outputs futures trace =
     (if async_execution t
      then execute_tasks llm inp ts outputs (futures @ [(t, outputs)]) (trace @ [Started (label t)])
      else (case join_futures llm inp futures outputs trace of
              (trace1, Inl e) \<Rightarrow> (trace1, Inl e)
            | (trace1, Inr outputs1) \<Rightarrow>
                (case llm t inp outputs1 of
                   Inl e \<Rightarrow> (trace1 @ [Started (label t), Failed (label t)], Inl e)
                 | Inr out \<Rightarrow>
                     execute_tasks llm inp ts (outputs1 @ [out]) []
                       (trace1 @ [Started (label t), Finished (label t)]))))"

text \<open>
  The result of a kickoff is the trace and the raise or the crew's output, whose
  \<open>str\<close> is the raw output of the last task. The hierarchical process is not
  modelled: its behaviour is a parameter.
\<close>

record crewai =
  agent_llm :: llm
  hierarchical_kickoff :: "crew \<Rightarrow> inputs \<Rightarrow> event list \<times> (exn + string)"

definition kickoff :: "crewai \<Rightarrow> crew \<Rightarrow> inputs \<Rightarrow> event list \<times> (exn + string)" where
  "kickoff fw c inp =
     (case process c of
        hierarchical \<Rightarrow> hierarchical_kickoff fw c inp
      | sequential \<Rightarrow>
          (case execute_tasks (agent_llm fw) inp (tasks c) [] [] [] of
             (trace, Inl e) \<Rightarrow> (trace, Inl e)
           | (trace, Inr outputs) \<Rightarrow> (trace, Inr (if outputs = [] then [] else last outputs))))"

text \<open>
  database.py: a row of the table \<open>analysis_results\<close>. The table is the list of its rows
  in insertion order. A new object has no id and no timestamp; the commit gives it the
  next row id (SQLite: the largest id in the table plus one) and the time of insertion.
\<close>

record analysis_result =
  row_id :: nat
  filename :: string
  query :: string
  result :: string
  created_at :: nat

type_synonym new_record = "string \<times> string \<times> string"

definition next_row_id :: "analysis_result list \<Rightarrow> nat" where
  "next_row_id table = Suc (fold max (map row_id table) 0)"

text \<open>
  The session: the objects added and not yet committed. Each database call may raise;
  which one does is the environment's choice (\<open>db_fault\<close>). A commit that raises writes
  nothing.
\<close>

datatype db_op = OpSessionLocal | OpAdd | OpCommit | OpClose

record worker_env =
  framework :: crewai
  db_fault :: "db_op \<Rightarrow> exn option"
  utcnow :: nat

definition SessionLocal :: "worker_env \<Rightarrow> exn + new_record list" where
  "SessionLocal env = (case db_fault env OpSessionLocal of Some e \<Rightarrow> Inl e | None \<Rightarrow> Inr [])"

definition db_add :: "worker_env \<Rightarrow> new_record list \<Rightarrow> new_record \<Rightarrow> exn + new_record list" where
  "db_add env session r = (case db_fault env OpAdd of Some e \<Rightarrow> Inl e | None \<Rightarrow> Inr (session @ [r]))"

fun insert_rows :: "nat \<Rightarrow> analysis_result list \<Rightarrow> new_record list \<Rightarrow> analysis_result list" where
  "insert_rows now table [] = table"
| "insert_rows now table ((f, q, r) # rs) =
     insert_rows now
       (table @ [\<lparr>row_id = next_row_id table, filename = f, query = q, result = r,
                  created_at = now\<rparr>]) rs"

definition db_commit ::
  "worker_env \<Rightarrow> analysis_result list \<Rightarrow> new_record list \<Rightarrow>
   exn + (analysis_result list \<times> new_record list)" where
  "db_commit env table session =
     (case db_fault env OpCommit of
        Some e \<Rightarrow> Inl e
      | None \<Rightarrow> Inr (insert_rows (utcnow env) table session, []))"

definition db_close :: "worker_env \<Rightarrow> new_record list \<Rightarrow> exn + unit" where
  "db_close env session = (case db_fault env OpClose of Some e \<Rightarrow> Inl e | None \<Rightarrow> Inr ())"

text \<open>
  \<open>process_document(file_path, query)\<close>: the table before, the table after, the trace of
  the crew and the task's return value or raise (Celery reports a raise as the job's
  failure).
\<close>

definition process_document ::
  "worker_env \<Rightarrow> analysis_result list \<Rightarrow> string \<Rightarrow> string \<Rightarrow>
   analysis_result list \<times> event list \<times> (exn + string)" where
  "process_document env table file_path q =
     (case kickoff (framework env) financial_crew [(''query'', q), (''path'', file_path)] of
        (trace, Inl e) \<Rightarrow> (table, trace, Inl e)
      | (trace, Inr res) \<Rightarrow>
          (case SessionLocal env of
             Inl e \<Rightarrow> (table, trace, Inl e)
           | Inr db \<Rightarrow>
               (case db_add env db (file_path, q, res) of
                  Inl e \<Rightarrow> (table, trace, Inl e)
                | Inr db1 \<Rightarrow>
                    (case db_commit env table db1 of
                       Inl e \<Rightarrow> (table, trace, Inl e)
                     | Inr (table1, db2) \<Rightarrow>
                         (case db_close env db2 of
                            Inl e \<Rightarrow> (table1, trace, Inl e)
                          | Inr _ \<Rightarrow> (table1, trace, Inr res))))))"

text \<open>
  Reading a trace: the tasks running after it (started and not yet ended), and the three
  traces a run of the two synchronous tasks can leave.
\<close>

definition running :: "event list \<Rightarrow> string list" where
  "running trace =
     fold (\<lambda>ev r. case ev of Started t \<Rightarrow> r @ [t]
                    | Finished t \<Rightarrow> removeAll t r
                    | Failed t \<Rightarrow> removeAll t r) trace []"

definition sequential_traces :: "event list list" where
  "sequential_traces =
    [[Started ''analyze_financial_document'', Failed ''analyze_financial_document''],
     [Started ''analyze_financial_document'', Finished ''analyze_financial_document'',
      Started ''verify_financial_analysis'', Failed ''verify_financial_analysis''],
     [Started ''analyze_financial_document'', Finished ''analyze_financial_document'',
      Started ''verify_financial_analysis'', Finished ''verify_financial_analysis'']]"

text \<open>Environments for the examples: a run that succeeds, one whose commit raises, and one
  whose language model raises.\<close>

definition example_llm :: llm where
  "example_llm t inp ctx =
     (if label t = ''analyze_financial_document'' then Inr ''Revenue: 100''
      else Inr (''Verified: '' @ concat ctx))"

definition example_env :: worker_env where
  "example_env = \<lparr>
     framework = \<lparr>agent_llm = example_llm, hierarchical_kickoff = (\<lambda>c inp. ([], Inr []))\<rparr>,
     db_fault = (\<lambda>op. None),
     utcnow = 1700000000 \<rparr>"

definition locked_env :: worker_env where
  "locked_env = example_env\<lparr>db_fault := (\<lambda>op. if op = OpCommit
       then Some (Exception ''database is locked'') else None)\<rparr>"

definition failing_env :: worker_env where
  "failing_env = example_env\<lparr>framework :=
     \<lparr>agent_llm = (\<lambda>t inp ctx. Inl (Exception ''rate limit'')),
      hierarchical_kickoff = (\<lambda>c inp. ([], Inr []))\<rparr>\<rparr>"

section \<open>main.py: the HTTP front door\<close>

text \<open>
  \<open>os.path.splitext\<close> and \<open>os.path.join\<close>, as \<open>posixpath\<close> defines them.
  \<open>rfind\<close> is the index of the last occurrence, or \<open>-1\<close>.
\<close>

fun rfind_from :: "char \<Rightarrow> string \<Rightarrow> int \<Rightarrow> int \<Rightarrow> int" where
  "rfind_from c [] i found = found"
| "rfind_from c (x # xs) i found = rfind_from c xs (i + 1) (if x = c then i else found)"

definition rfind :: "char \<Rightarrow> string \<Rightarrow> int" where
  "rfind c s = rfind_from c s 0 (-1)"

function splitext_loop :: "string \<Rightarrow> nat \<Rightarrow> nat \<Rightarrow> (string \<times> string) option" where
  "splitext_loop p filenameIndex dotIndex =
     (if filenameIndex < dotIndex
      then (if take 1 (drop filenameIndex p) \<noteq> ''.''
            then Some (take dotIndex p, drop dotIndex p)
            else splitext_loop p (filenameIndex + 1) dotIndex)
      else None)"
  by pat_completeness auto
termination
  by (relation "measure (\<lambda>(p, filenameIndex, dotIndex). dotIndex - filenameIndex)") auto

declare splitext_loop.simps [simp del]

definition splitext :: "string \<Rightarrow> string \<times> string" where
  "splitext p =
     (let sepIndex = rfind (CHR ''/'') p; dotIndex = rfind (CHR ''.'') p
      in if dotIndex > sepIndex
         then (case splitext_loop p (nat (sepIndex + 1)) (nat dotIndex) of
                 Some r \<Rightarrow> r
               | None \<Rightarrow> (p, []))
         else (p, []))"

definition os_path_join :: "string \<Rightarrow> string \<Rightarrow> string" where
  "os_path_join a b =
     (if prefix ''/'' b then b
      else if a = [] \<or> suffix ''/'' a then a @ b
      else a @ ''/'' @ b)"

definition UPLOAD_DIR :: string where
  "UPLOAD_DIR = ''data''"

text \<open>
  The request's environment: the identifier \<open>uuid.uuid4()\<close> draws, what reading the
  upload gives, whether writing the file raises, and what the broker answers to
  \<open>process_document.delay\<close> (the new task's id, or a raise). The server's state is the
  upload directory (path to contents) and the queue of submitted jobs.
\<close>

record upload_file =
  upload_filename :: "string option"
  upload_read :: "exn + string"

record request_env =
  uuid4 :: string
  write_fault :: "string \<Rightarrow> exn option"
  delay_result :: "exn + string"

record server =
  disk :: "string \<Rightarrow> string option"
  queue :: "(string \<times> string \<times> string) list"

text \<open>
  \<open>save_upload_file\<close>: everything is inside the \<open>try\<close>, so every raise becomes an
  \<open>HTTPException\<close> with status 500. A missing filename makes \<open>splitext\<close> raise.
\<close>

definition save_upload_file_try ::
  "request_env \<Rightarrow> server \<Rightarrow> upload_file \<Rightarrow> server \<times> (exn + string)" where
  "save_upload_file_try env srv f =
     (let file_id = uuid4 env in
      case upload_filename f of
        None \<Rightarrow>
          (srv, Inl (Exception ''expected str, bytes or os.PathLike object, not NoneType''))
      | Some name \<Rightarrow>
          (let file_extension = snd (splitext name);
               file_path = os_path_join UPLOAD_DIR (file_id @ file_extension)
           in case upload_read f of
                Inl e \<Rightarrow> (srv, Inl e)
              | Inr contents \<Rightarrow>
                  (case write_fault env file_path of
                     Some e \<Rightarrow> (srv, Inl e)
                   | None \<Rightarrow>
                       (srv\<lparr>disk := (disk srv)(file_path \<mapsto> contents)\<rparr>, Inr file_path))))"

definition save_upload_file ::
  "request_env \<Rightarrow> server \<Rightarrow> upload_file \<Rightarrow> server \<times> (exn + string)" where
  "save_upload_file env srv f =
     (case save_upload_file_try env srv f of
        (srv1, Inl e) \<Rightarrow> (srv1, Inl (HTTPException 500 (''File save failed: '' @ str_exn e)))
      | (srv1, Inr file_path) \<Rightarrow> (srv1, Inr file_path))"

text \<open>
  A handler's return value is a Python dict with string keys; its values are the Python
  values below (\<open>PyExn\<close> is an exception instance, \<open>PyNone\<close> is \<open>None\<close>).
\<close>

datatype pyval = PyNone | PyStr string | PyExn exn

fun str_pyval :: "pyval \<Rightarrow> string" where
  "str_pyval PyNone = ''None''"
| "str_pyval (PyStr s) = s"
| "str_pyval (PyExn e) = str_exn e"

type_synonym response = "(string \<times> pyval) list"

definition analyze_document_try ::
  "request_env \<Rightarrow> server \<Rightarrow> upload_file \<Rightarrow> string \<Rightarrow> server \<times> (exn + response)" where
  "analyze_document_try env srv f q =
     (case save_upload_file env srv f of
        (srv1, Inl e) \<Rightarrow> (srv1, Inl e)
      | (srv1, Inr file_path) \<Rightarrow>
          (case delay_result env of
             Inl e \<Rightarrow> (srv1, Inl e)
           | Inr task_id \<Rightarrow>
               (srv1\<lparr>queue := queue srv1 @ [(task_id, file_path, q)]\<rparr>,
                Inr [(''status'', PyStr ''processing''),
                     (''task_id'', PyStr task_id),
                     (''message'', PyStr ''Analysis started in background''),
                     (''file_path'', PyStr file_path)])))"

definition analyze_document ::
  "request_env \<Rightarrow> server \<Rightarrow> upload_file \<Rightarrow> string \<Rightarrow> server \<times> (exn + response)" where
  "analyze_document env srv f q =
     (case analyze_document_try env srv f q of
        (srv1, Inl e) \<Rightarrow> (srv1, Inl (HTTPException 500 (str_exn e)))
      | (srv1, Inr r) \<Rightarrow> (srv1, Inr r))"

text \<open>
  The result backend keeps, for the task ids it knows, the state label and the result
  (the return value, or the exception instance). \<open>AsyncResult(task_id)\<close> belongs to
  Celery: for an id the backend does not know, its state is \<open>PENDING\<close> and its result
  \<open>None\<close>.
\<close>

record task_meta =
  state :: string
  task_result :: pyval

type_synonym backend = "string \<Rightarrow> task_meta option"

definition AsyncResult :: "backend \<Rightarrow> string \<Rightarrow> task_meta" where
  "AsyncResult b task_id =
     (case b task_id of
        None \<Rightarrow> \<lparr>state = ''PENDING'', task_result = PyNone\<rparr>
      | Some m \<Rightarrow> m)"

definition get_status :: "backend \<Rightarrow> string \<Rightarrow> response" where
  "get_status b task_id =
     (let r = AsyncResult b task_id in
      if state r = ''PENDING'' then [(''status'', PyStr ''pending'')]
      else if state r = ''SUCCESS''
        then [(''status'', PyStr ''completed''), (''result'', task_result r)]
      else if state r = ''FAILURE''
        then [(''status'', PyStr ''failed''), (''error'', PyStr (str_pyval (task_result r)))]
      else [(''status'', PyStr (state r))])"

text \<open>
  The path \<open>save_upload_file\<close> computes for an upload named \<open>name\<close>, as a function
  of the request's environment.
\<close>

definition upload_path :: "request_env \<Rightarrow> string \<Rightarrow> string" where
  "upload_path env name = os_path_join UPLOAD_DIR (uuid4 env @ snd (splitext name))"

text \<open>Requests for the examples: one that succeeds, one whose write fails, one whose
  broker is down.\<close>

definition example_request :: request_env where
  "example_request = \<lparr>
     uuid4 = ''3f2b8c1e-0d4a-4e7b-9a61-5c2d8e9f0a17'',
     write_fault = (\<lambda>p. None),
     delay_result = Inr ''7c9e6679-7425-40de-944b-e07fc1f90ae7'' \<rparr>"

definition disk_full_request :: request_env where
  "disk_full_request = example_request\<lparr>write_fault :=
     (\<lambda>p. Some (Exception ''[Errno 28] No space left on device''))\<rparr>"

definition broker_down_request :: request_env where
  "broker_down_request = example_request\<lparr>delay_result :=
     Inl (Exception ''Error 111 connecting to localhost:6379. Connection refused.'')\<rparr>"

definition example_upload :: upload_file where
  "example_upload = \<lparr>upload_filename = Some ''report.pdf'', upload_read = Inr ''%PDF-1.4''\<rparr>"

definition empty_server :: server where
  "empty_server = \<lparr>disk = (\<lambda>p. None), queue = []\<rparr>"

text \<open>A result backend for the examples.\<close>

definition example_backend :: backend where
  "example_backend = (\<lambda>task_id.
     if task_id = ''t-ok'' then Some \<lparr>state = ''SUCCESS'', task_result = PyStr ''Revenue is 100''\<rparr>
     else if task_id = ''t-bad'' then
       Some \<lparr>state = ''FAILURE'', task_result = PyExn (Exception ''database is locked'')\<rparr>
     else if task_id = ''t-run'' then Some \<lparr>state = ''STARTED'', task_result = PyNone\<rparr>
     else None)"

section \<open>Properties of the document reader\<close>

lemma replace_nn_Nil_iff: "replace_nn s = [] \<longleftrightarrow> s = []"
  by (induction s rule: replace_nn.induct) auto

lemma hd_replace_nn: "hd (replace_nn s) = hd s"
  by (induction s rule: replace_nn.induct) auto

lemma squeeze_Cons:
  "squeeze_newlines (c # x) =
     (if x \<noteq> [] \<and> c = NL \<and> hd x = NL then squeeze_newlines x else c # squeeze_newlines x)"
  by (cases x) auto

lemma contains_nn_Cons:
  "str_contains [NL, NL] (c # x) =
     ((x \<noteq> [] \<and> c = NL \<and> hd x = NL) \<or> str_contains [NL, NL] x)"
  by (cases x) auto

lemma squeeze_Nil_iff: "squeeze_newlines s = [] \<longleftrightarrow> s = []"
  by (induction s rule: squeeze_newlines.induct) auto

lemma hd_squeeze: "hd (squeeze_newlines s) = hd s"
  by (induction s rule: squeeze_newlines.induct) auto

lemma squeeze_replace_nn: "squeeze_newlines (replace_nn s) = squeeze_newlines s"
proof (induction s rule: replace_nn.induct)
  case (1 a b s)
  show ?case
  proof (cases "a = NL \<and> b = NL")
    case True
    then have "squeeze_newlines (replace_nn (a # b # s)) = squeeze_newlines (NL # replace_nn s)"
      by simp
    also have "\<dots> = squeeze_newlines (NL # s)"
      using 1(1) True by (simp add: squeeze_Cons replace_nn_Nil_iff hd_replace_nn)
    also have "\<dots> = squeeze_newlines (a # b # s)"
      using True by simp
    finally show ?thesis .
  next
    case False
    then have "squeeze_newlines (replace_nn (a # b # s)) = squeeze_newlines (a # replace_nn (b # s))"
      by auto
    also have "\<dots> = a # squeeze_newlines (replace_nn (b # s))"
      using False by (auto simp add: squeeze_Cons replace_nn_Nil_iff hd_replace_nn)
    also have "\<dots> = a # squeeze_newlines (b # s)"
      using 1(2) False by simp
    also have "\<dots> = squeeze_newlines (a # b # s)"
      using False by auto
    finally show ?thesis .
  qed
qed auto

lemma squeeze_no_nn: "\<not> str_contains [NL, NL] s \<Longrightarrow> squeeze_newlines s = s"
  by (induction s rule: squeeze_newlines.induct)
    (auto simp del: str_contains.simps simp: str_contains_nn_simps)

lemma collapse_squeeze: "collapse s = squeeze_newlines s"
proof (induction s rule: collapse.induct)
  case (1 t)
  show ?case
  proof (cases "str_contains [NL, NL] t")
    case True
    then show ?thesis
      using 1 by (subst collapse.simps) (simp add: str_replace_nn squeeze_replace_nn)
  next
    case False
    then show ?thesis
      by (subst collapse.simps) (simp add: squeeze_no_nn)
  qed
qed

lemma squeeze_has_no_nn: "\<not> str_contains [NL, NL] (squeeze_newlines s)"
proof (induction s rule: squeeze_newlines.induct)
  case (1 a b s)
  then show ?case
    by (auto simp del: str_contains.simps squeeze_newlines.simps
        simp: contains_nn_Cons squeeze_Cons [of a] squeeze_Nil_iff hd_squeeze)
qed auto

lemma str_strip_Nil_iff: "str_strip s = [] \<longleftrightarrow> (\<forall>c\<in>set s. isspace c)"
proof
  assume "str_strip s = []"
  then have *: "\<forall>c\<in>set (dropWhile isspace s). isspace c"
    by (simp add: str_strip_def dropWhile_eq_Nil_conv)
  have "dropWhile isspace s = []"
  proof (rule ccontr)
    assume ne: "dropWhile isspace s \<noteq> []"
    then have "\<not> isspace (hd (dropWhile isspace s))"
      by (rule hd_dropWhile)
    moreover have "hd (dropWhile isspace s) \<in> set (dropWhile isspace s)"
      using ne by simp
    ultimately show False using * by blast
  qed
  then show "\<forall>c\<in>set s. isspace c"
    by (simp add: dropWhile_eq_Nil_conv)
next
  assume "\<forall>c\<in>set s. isspace c"
  then show "str_strip s = []"
    by (auto simp: str_strip_def dropWhile_eq_Nil_conv dest: set_dropWhileD)
qed

lemma read_pages_Inr:
  "read_pages pages acc = Inr r \<Longrightarrow>
   \<exists>texts. pages = map Inr texts \<and>
     r = acc @ concat (map (\<lambda>t. collapse (or_empty t) @ [NL]) texts)"
proof (induction pages arbitrary: acc)
  case Nil
  then show ?case by simp
next
  case (Cons p ps)
  then obtain t where p: "p = Inr t"
    by (cases p) (auto simp: extract_text_def)
  with Cons.prems have "read_pages ps (acc @ collapse (or_empty t) @ [NL]) = Inr r"
    by (simp add: extract_text_def)
  from Cons.IH [OF this] obtain texts where
    "ps = map Inr texts"
    "r = (acc @ collapse (or_empty t) @ [NL]) @ concat (map (\<lambda>t. collapse (or_empty t) @ [NL]) texts)"
    by blast
  then have "p # ps = map Inr (t # texts) \<and>
      r = acc @ concat (map (\<lambda>t. collapse (or_empty t) @ [NL]) (t # texts))"
    using p by simp
  then show ?case by (rule exI)
qed

lemma read_pages_map_Inr:
  "read_pages (map Inr texts) acc =
     Inr (acc @ concat (map (\<lambda>t. collapse (or_empty t) @ [NL]) texts))"
  by (induction texts arbitrary: acc) (simp_all add: extract_text_def)

lemma read_pages_fault:
  "read_pages (map Inr texts @ Inl e # rest) acc = Inl e"
  by (induction texts arbitrary: acc) (simp_all add: extract_text_def)

lemma split_lines_ne: "split_lines s \<noteq> []"
  by (induction s) (auto split: list.splits)

lemma split_lines_Cons:
  "split_lines (c # s) =
     (if c = NL then [] # split_lines s else (c # hd (split_lines s)) # tl (split_lines s))"
  using split_lines_ne [of s] by (cases "split_lines s") auto

lemma hd_split_lines_ne: "b \<noteq> NL \<Longrightarrow> hd (split_lines (b # s)) \<noteq> []"
  by (simp add: split_lines_Cons del: split_lines.simps)

lemma dib_blank_blank:
  "X \<noteq> [] \<Longrightarrow> drop_inner_blank ([] # [] # X) = drop_inner_blank ([] # X)"
  by (simp add: drop_inner_blank_def)

lemma dib_blank:
  "Z \<noteq> [] \<Longrightarrow> hd Z \<noteq> [] \<Longrightarrow> drop_inner_blank ([] # Z) = [] # drop_inner_blank Z"
  by (cases Z) (auto simp: drop_inner_blank_def)

lemma dib_hd:
  "Z \<noteq> [] \<Longrightarrow> drop_inner_blank ((a # hd Z) # tl Z) =
     (a # hd (drop_inner_blank Z)) # tl (drop_inner_blank Z)"
  by (cases Z) (auto simp: drop_inner_blank_def)

lemma split_lines_squeeze:
  "split_lines (squeeze_newlines s) = drop_inner_blank (split_lines s)"
proof (induction s rule: squeeze_newlines.induct)
  case (1 a b s)
  show ?case
  proof (cases "a = NL \<and> b = NL")
    case True
    then have "split_lines (squeeze_newlines (a # b # s)) = drop_inner_blank (split_lines (NL # s))"
      using 1(1) by simp
    also have "\<dots> = drop_inner_blank ([] # [] # split_lines s)"
      using split_lines_ne [of s] by (simp add: dib_blank_blank)
    also have "\<dots> = drop_inner_blank (split_lines (a # b # s))"
      using True by simp
    finally show ?thesis .
  next
    case False
    then have sq: "squeeze_newlines (a # b # s) = a # squeeze_newlines (b # s)"
      by auto
    have ih: "split_lines (squeeze_newlines (b # s)) = drop_inner_blank (split_lines (b # s))"
      using 1(2) False by simp
    show ?thesis
    proof (cases "a = NL")
      case True
      with False have "b \<noteq> NL" by simp
      then have "hd (split_lines (b # s)) \<noteq> []" by (rule hd_split_lines_ne)
      then have "drop_inner_blank ([] # split_lines (b # s)) =
          [] # drop_inner_blank (split_lines (b # s))"
        using split_lines_ne [of "b # s"] by (intro dib_blank)
      moreover have "split_lines (a # squeeze_newlines (b # s)) =
          [] # split_lines (squeeze_newlines (b # s))"
        using True by (simp add: split_lines_Cons del: split_lines.simps squeeze_newlines.simps)
      moreover have "split_lines (a # b # s) = [] # split_lines (b # s)"
        using True by (simp add: split_lines_Cons del: split_lines.simps squeeze_newlines.simps)
      ultimately show ?thesis
        by (simp only: sq ih)
    next
      case False
      have "split_lines (a # squeeze_newlines (b # s)) =
          (a # hd (drop_inner_blank (split_lines (b # s)))) #
            tl (drop_inner_blank (split_lines (b # s)))"
        using False by (simp add: split_lines_Cons [of a] ih del: split_lines.simps squeeze_newlines.simps)
      moreover have "split_lines (a # b # s) =
          (a # hd (split_lines (b # s))) # tl (split_lines (b # s))"
        using False by (simp add: split_lines_Cons [of a] del: split_lines.simps squeeze_newlines.simps)
      ultimately show ?thesis
        using dib_hd [OF split_lines_ne [of "b # s"], of a] by (simp only: sq)
    qed
  qed
next
  case "2_1"
  show ?case by (simp add: drop_inner_blank_def)
next
  case "2_2"
  show ?case by (simp add: drop_inner_blank_def)
qed

lemma run_Some:
  "run fs (Some path) =
     (if fs path = None then Inr (''ERROR: File not found at path: '' @ path)
      else (case run_try fs path of
              Inl e \<Rightarrow> Inr (''ERROR: Failed to read PDF. Details: '' @ str_exn e)
            | Inr r \<Rightarrow> Inr r))"
  by (simp add: run_def os_path_exists_def)

lemma run_None:
  "run fs None =
     (if fs ''data/sample.pdf'' = None
      then Inr ''ERROR: File not found at path: data/sample.pdf''
      else (case run_try fs ''data/sample.pdf'' of
              Inl e \<Rightarrow> Inr (''ERROR: Failed to read PDF. Details: '' @ str_exn e)
            | Inr r \<Rightarrow> Inr r))"
  by (simp add: run_def os_path_exists_def Let_def)

lemma run_try_cong: "fs path = fs2 path \<Longrightarrow> run_try fs path = run_try fs2 path"
  by (simp add: run_try_def pdfplumber_open_def)

text \<open>
  C10. Invoked without a path argument, the reader reads the fixed path
  \<open>data/sample.pdf\<close>. It behaves exactly as if that path had been given and it does
  not fail; what it returns is decided by what the file system holds at that path: the
  not-found string when nothing is there, the error string when the file cannot be opened,
  the file's normalised text when it is a PDF with text. No other path matters: two file
  systems that agree at \<open>data/sample.pdf\<close> give the same result.
\<close>

theorem run_default_path:
  "run fs None = run fs (Some ''data/sample.pdf'') \<and>
   (\<exists>s. run fs None = Inr s) \<and>
   (fs ''data/sample.pdf'' = None \<longrightarrow>
      run fs None = Inr ''ERROR: File not found at path: data/sample.pdf'') \<and>
   (fs ''data/sample.pdf'' = Some (OpenRaises e) \<longrightarrow>
      run fs None = Inr (''ERROR: Failed to read PDF. Details: '' @ str_exn e)) \<and>
   (fs ''data/sample.pdf'' = Some (Pdf (map Inr texts)) \<and>
    str_strip (concat (map (\<lambda>t. collapse (or_empty t) @ [NL]) texts)) \<noteq> [] \<longrightarrow>
      run fs None = Inr (concat (map (\<lambda>t. collapse (or_empty t) @ [NL]) texts))) \<and>
   (fs ''data/sample.pdf'' = fs2 ''data/sample.pdf'' \<longrightarrow> run fs None = run fs2 None)"
proof (intro conjI impI)
  show "run fs None = run fs (Some ''data/sample.pdf'')"
    by (simp add: run_def)
next
  show "\<exists>s. run fs None = Inr s"
    by (simp add: run_None split: sum.split)
next
  assume "fs ''data/sample.pdf'' = None"
  then show "run fs None = Inr ''ERROR: File not found at path: data/sample.pdf''"
    by (simp add: run_None)
next
  assume "fs ''data/sample.pdf'' = Some (OpenRaises e)"
  then show "run fs None = Inr (''ERROR: Failed to read PDF. Details: '' @ str_exn e)"
    by (simp add: run_None run_try_def pdfplumber_open_def)
next
  assume "fs ''data/sample.pdf'' = Some (Pdf (map Inr texts)) \<and>
    str_strip (concat (map (\<lambda>t. collapse (or_empty t) @ [NL]) texts)) \<noteq> []"
  then show "run fs None = Inr (concat (map (\<lambda>t. collapse (or_empty t) @ [NL]) texts))"
    by (simp add: run_None run_try_def pdfplumber_open_def read_pages_map_Inr)
next
  assume "fs ''data/sample.pdf'' = fs2 ''data/sample.pdf''"
  then show "run fs None = run fs2 None"
    using run_try_cong [of fs "''data/sample.pdf''" fs2] by (simp add: run_None)
qed

theorem run_default_path_witness:
  "run example_fs None = Inr ''ERROR: File not found at path: data/sample.pdf'' \<and>
   run sample_fs None = Inr (''Total assets: 5'' @ [NL]) \<and>
   run (sample_fs(''data/a.pdf'' := example_fs ''data/a.pdf'')) None =
     Inr (''Total assets: 5'' @ [NL])"
proof -
  have e: "example_fs ''data/sample.pdf'' = None"
    by (simp add: example_fs_def)
  have 1: "run example_fs None = Inr ''ERROR: File not found at path: data/sample.pdf''"
    using run_default_path [of example_fs "Exception []" "[]" example_fs] e
    by blast
  have s: "str_strip (concat (map (\<lambda>t. collapse (or_empty t) @ [NL]) [Some ''Total assets: 5''])) \<noteq> []"
    by (simp add: collapse_squeeze or_empty_def str_strip_def isspace_def NL_def)
  have f: "sample_fs ''data/sample.pdf'' = Some (Pdf (map Inr [Some ''Total assets: 5'']))"
    by (simp add: sample_fs_def)
  have 2: "run sample_fs None = Inr (concat (map (\<lambda>t. collapse (or_empty t) @ [NL])
      [Some ''Total assets: 5'']))"
    using run_default_path [of sample_fs "Exception []" "[Some ''Total assets: 5'']" sample_fs] f s
    by blast
  have u: "(sample_fs(''data/a.pdf'' := example_fs ''data/a.pdf'')) ''data/sample.pdf'' =
      sample_fs ''data/sample.pdf''"
    by simp
  have 3: "run (sample_fs(''data/a.pdf'' := example_fs ''data/a.pdf'')) None = run sample_fs None"
    using run_default_path [of "sample_fs(''data/a.pdf'' := example_fs ''data/a.pdf'')"
        "Exception []" "[]" sample_fs] u
    by blast
  show ?thesis
    using 1 2 3 by (simp add: collapse_squeeze or_empty_def NL_def)
qed

text \<open>
  C3. The reader never raises: for every file system and argument it returns a string.
  A path that does not exist gives the not-found error string; a PDF whose concatenated
  text is blank after trimming gives the warning string; a fault when opening the file or
  when extracting a page is caught and returned as an error string carrying the
  exception's message.
\<close>

theorem run_never_raises:
  "(\<exists>s. run fs arg = Inr s) \<and>
   (fs path = None \<longrightarrow>
      run fs (Some path) = Inr (''ERROR: File not found at path: '' @ path)) \<and>
   (fs path = Some (Pdf (map Inr texts)) \<and>
    str_strip (concat (map (\<lambda>t. collapse (or_empty t) @ [NL]) texts)) = [] \<longrightarrow>
      run fs (Some path) = Inr ''WARNING: No readable text found in the PDF.'') \<and>
   (fs path = Some (OpenRaises e) \<longrightarrow>
      run fs (Some path) = Inr (''ERROR: Failed to read PDF. Details: '' @ str_exn e)) \<and>
   (fs path = Some (Pdf (map Inr texts @ Inl e # rest)) \<longrightarrow>
      run fs (Some path) = Inr (''ERROR: Failed to read PDF. Details: '' @ str_exn e))"
proof (intro conjI impI)
  show "\<exists>s. run fs arg = Inr s"
    by (simp add: run_def Let_def split: sum.split)
next
  assume "fs path = None"
  then show "run fs (Some path) = Inr (''ERROR: File not found at path: '' @ path)"
    by (simp add: run_Some)
next
  assume "fs path = Some (Pdf (map Inr texts)) \<and>
    str_strip (concat (map (\<lambda>t. collapse (or_empty t) @ [NL]) texts)) = []"
  then show "run fs (Some path) = Inr ''WARNING: No readable text found in the PDF.''"
    by (simp add: run_Some run_try_def pdfplumber_open_def read_pages_map_Inr)
next
  assume "fs path = Some (OpenRaises e)"
  then show "run fs (Some path) = Inr (''ERROR: Failed to read PDF. Details: '' @ str_exn e)"
    by (simp add: run_Some run_try_def pdfplumber_open_def)
next
  assume "fs path = Some (Pdf (map Inr texts @ Inl e # rest))"
  then show "run fs (Some path) = Inr (''ERROR: Failed to read PDF. Details: '' @ str_exn e)"
    by (simp add: run_Some run_try_def pdfplumber_open_def read_pages_fault)
qed

theorem run_never_raises_witness:
  "run (\<lambda>p. None) (Some ''missing.pdf'') = Inr ''ERROR: File not found at path: missing.pdf'' \<and>
   run (\<lambda>p. Some (Pdf [Inr (Some ('' '' @ [NL, NL])), Inr None])) (Some ''blank.pdf'') =
     Inr ''WARNING: No readable text found in the PDF.'' \<and>
   run (\<lambda>p. Some (OpenRaises (Exception ''No /Root object''))) (Some ''corrupt.pdf'') =
     Inr ''ERROR: Failed to read PDF. Details: No /Root object'' \<and>
   run (\<lambda>p. Some (Pdf [Inr (Some ''a''), Inl (Exception ''bad page'')])) (Some ''half.pdf'') =
     Inr ''ERROR: Failed to read PDF. Details: bad page''"
  using
    run_never_raises [of "\<lambda>p. None" "Some ''missing.pdf''" "''missing.pdf''" "[]"
      "Exception []" "[]"]
    run_never_raises [of "\<lambda>p. Some (Pdf [Inr (Some ('' '' @ [NL, NL])), Inr None])"
      "Some ''blank.pdf''" "''blank.pdf''" "[Some ('' '' @ [NL, NL]), None]" "Exception []" "[]"]
    run_never_raises [of "\<lambda>p. Some (OpenRaises (Exception ''No /Root object''))"
      "Some ''corrupt.pdf''" "''corrupt.pdf''" "[]" "Exception ''No /Root object''" "[]"]
    run_never_raises [of "\<lambda>p. Some (Pdf [Inr (Some ''a''), Inl (Exception ''bad page'')])"
      "Some ''half.pdf''" "''half.pdf''" "[Some ''a'']" "Exception ''bad page''" "[]"]
  by (simp add: collapse_squeeze or_empty_def str_strip_def isspace_def NL_def)


text \<open>
  C8. When the extraction succeeds (the file opens, every page extracts and the report is
  not blank), the returned text is the concatenation, in page order, of each page's text
  (\<open>None\<close> read as the empty string) with every run of two or more newlines collapsed
  to one newline, each followed by one appended newline; so it ends with a newline and
  has a character that is not whitespace.
\<close>

theorem extraction_success_text:
  assumes "pdfplumber_open fs path = Inr pages"
    and "read_pages pages [] = Inr full_report"
    and "str_strip full_report \<noteq> []"
  shows "run fs (Some path) = Inr full_report \<and>
    (\<exists>texts. pages = map Inr texts \<and>
       full_report = concat (map (\<lambda>t. squeeze_newlines (or_empty t) @ [NL]) texts)) \<and>
    full_report \<noteq> [] \<and> last full_report = NL \<and>
    (\<exists>c\<in>set full_report. \<not> isspace c)"
proof -
  from assms(1) have ex: "fs path \<noteq> None"
    by (auto simp: pdfplumber_open_def split: option.splits)
  have r: "run fs (Some path) = Inr full_report"
    using assms ex by (auto simp: run_Some run_try_def)
  from read_pages_Inr [OF assms(2)] obtain texts where
    t: "pages = map Inr texts"
       "full_report = concat (map (\<lambda>t. collapse (or_empty t) @ [NL]) texts)"
    by auto
  have ne: "full_report \<noteq> []"
    using assms(3) by (auto simp: str_strip_def)
  then have "texts \<noteq> []" using t(2) by auto
  then have l: "last full_report = NL"
    unfolding t(2) by (induction texts rule: rev_induct) auto
  have sp: "\<exists>c\<in>set full_report. \<not> isspace c"
    using assms(3) by (simp add: str_strip_Nil_iff)
  show ?thesis
    using r t ne l sp by (auto simp: collapse_squeeze)
qed


theorem extraction_success_text_witness:
  "run example_fs (Some ''data/a.pdf'') = Inr (''Revenue'' @ [NL] @ ''100'' @ [NL, NL])"
proof -
  have o: "pdfplumber_open example_fs ''data/a.pdf'' =
      Inr [Inr (Some (''Revenue'' @ [NL, NL, NL] @ ''100'')), Inr None]"
    by (simp add: pdfplumber_open_def example_fs_def)
  have r: "read_pages [Inr (Some (''Revenue'' @ [NL, NL, NL] @ ''100'')), Inr None] [] =
      Inr (''Revenue'' @ [NL] @ ''100'' @ [NL, NL])"
    by (simp add: extract_text_def collapse_squeeze or_empty_def NL_def)
  have s: "str_strip (''Revenue'' @ [NL] @ ''100'' @ [NL, NL]) \<noteq> []"
    by (simp add: str_strip_def isspace_def NL_def)
  from extraction_success_text [OF o r s] show ?thesis by simp
qed

text \<open>
  C2, as the specification states it, fails: a page whose text has one blank line between
  two lines comes back with no blank line at all, where collapsing "to a single blank
  line" would keep it. The loop replaces until no two newlines are adjacent.
\<close>

theorem blank_line_counterexample:
  "run blank_line_fs (Some ''data/b.pdf'') = Inr (''a'' @ [NL] @ ''b'' @ [NL]) \<and>
   squeeze_blank_lines (''a'' @ [NL, NL] @ ''b'') = ''a'' @ [NL, NL] @ ''b'' \<and>
   run blank_line_fs (Some ''data/b.pdf'') \<noteq>
     Inr (squeeze_blank_lines (''a'' @ [NL, NL] @ ''b'')) \<and>
   run blank_line_fs (Some ''data/b.pdf'') \<noteq>
     Inr (squeeze_blank_lines (''a'' @ [NL, NL] @ ''b'') @ [NL])"
  by (simp add: run_Some run_try_def pdfplumber_open_def blank_line_fs_def extract_text_def
      or_empty_def collapse_squeeze str_strip_def isspace_def NL_def)

text \<open>
  C2, amended. For a PDF that opens and whose pages all extract, with a report that is not
  blank, the reader returns the normalised page texts in page order, each followed by a
  newline. The normalisation collapses every run of newlines to a single newline: the
  lines of the normalised text are the lines of the page's text without the blank lines
  that are neither first nor last, and no two newlines are adjacent in it.
\<close>

theorem page_normalisation:
  assumes "fs path = Some (Pdf (map Inr texts))"
    and "str_strip (concat (map (\<lambda>t. collapse (or_empty t) @ [NL]) texts)) \<noteq> []"
  shows "run fs (Some path) = Inr (concat (map (\<lambda>t. collapse (or_empty t) @ [NL]) texts)) \<and>
    (\<forall>t\<in>set texts.
       split_lines (collapse (or_empty t)) = drop_inner_blank (split_lines (or_empty t)) \<and>
       \<not> str_contains [NL, NL] (collapse (or_empty t)))"
proof -
  have "run fs (Some path) = Inr (concat (map (\<lambda>t. collapse (or_empty t) @ [NL]) texts))"
    using assms by (simp add: run_Some run_try_def pdfplumber_open_def read_pages_map_Inr)
  moreover have "split_lines (collapse s) = drop_inner_blank (split_lines s)" for s
    by (simp only: collapse_squeeze split_lines_squeeze)
  moreover have "\<not> str_contains [NL, NL] (collapse s)" for s
    by (simp only: collapse_squeeze squeeze_has_no_nn not_False_eq_True)
  ultimately show ?thesis by blast
qed

theorem page_normalisation_witness:
  "run example_fs (Some ''data/a.pdf'') = Inr (''Revenue'' @ [NL] @ ''100'' @ [NL, NL]) \<and>
   split_lines (collapse (''Revenue'' @ [NL, NL, NL] @ ''100'')) = [''Revenue'', ''100''] \<and>
   \<not> str_contains [NL, NL] (collapse (''Revenue'' @ [NL, NL, NL] @ ''100''))"
proof -
  have f: "example_fs ''data/a.pdf'' =
      Some (Pdf (map Inr [Some (''Revenue'' @ [NL, NL, NL] @ ''100''), None]))"
    by (simp add: example_fs_def)
  have s: "str_strip (concat (map (\<lambda>t. collapse (or_empty t) @ [NL])
      [Some (''Revenue'' @ [NL, NL, NL] @ ''100''), None])) \<noteq> []"
    by (simp add: collapse_squeeze or_empty_def str_strip_def isspace_def NL_def)
  from page_normalisation [of example_fs "''data/a.pdf''"
      "[Some (''Revenue'' @ [NL, NL, NL] @ ''100''), None]", OF f s] show ?thesis
    by (simp add: collapse_squeeze or_empty_def drop_inner_blank_def NL_def)
qed

section \<open>Properties of the status endpoint\<close>

text \<open>
  C1. For every task id, the status endpoint returns one of four objects, decided by the
  job's state: \<open>{status: pending}\<close> when the state is \<open>PENDING\<close> (also when the id
  is unknown), \<open>{status: completed, result}\<close> when \<open>SUCCESS\<close>,
  \<open>{status: failed, error: str(result)}\<close> when \<open>FAILURE\<close>, and
  \<open>{status: state}\<close> for any other state; the object always has distinct keys and a
  string under \<open>status\<close>.
\<close>

theorem get_status_shapes:
  "(b task_id = None \<longrightarrow> get_status b task_id = [(''status'', PyStr ''pending'')]) \<and>
   (state (AsyncResult b task_id) = ''PENDING'' \<longrightarrow>
      get_status b task_id = [(''status'', PyStr ''pending'')]) \<and>
   (state (AsyncResult b task_id) = ''SUCCESS'' \<longrightarrow>
      get_status b task_id =
        [(''status'', PyStr ''completed''), (''result'', task_result (AsyncResult b task_id))]) \<and>
   (state (AsyncResult b task_id) = ''FAILURE'' \<longrightarrow>
      get_status b task_id =
        [(''status'', PyStr ''failed''),
         (''error'', PyStr (str_pyval (task_result (AsyncResult b task_id))))]) \<and>
   (state (AsyncResult b task_id) \<notin> {''PENDING'', ''SUCCESS'', ''FAILURE''} \<longrightarrow>
      get_status b task_id = [(''status'', PyStr (state (AsyncResult b task_id)))]) \<and>
   distinct (map fst (get_status b task_id)) \<and>
   (\<exists>s. map_of (get_status b task_id) ''status'' = Some (PyStr s))"
proof -
  have 1: "b task_id = None \<longrightarrow> get_status b task_id = [(''status'', PyStr ''pending'')]"
    by (simp add: get_status_def AsyncResult_def)
  have 2: "state (AsyncResult b task_id) = ''PENDING'' \<longrightarrow>
      get_status b task_id = [(''status'', PyStr ''pending'')]"
    by (simp add: get_status_def)
  have 3: "state (AsyncResult b task_id) = ''SUCCESS'' \<longrightarrow>
      get_status b task_id =
        [(''status'', PyStr ''completed''), (''result'', task_result (AsyncResult b task_id))]"
    by (simp add: get_status_def)
  have 4: "state (AsyncResult b task_id) = ''FAILURE'' \<longrightarrow>
      get_status b task_id =
        [(''status'', PyStr ''failed''),
         (''error'', PyStr (str_pyval (task_result (AsyncResult b task_id))))]"
    by (simp add: get_status_def)
  have 5: "state (AsyncResult b task_id) \<notin> {''PENDING'', ''SUCCESS'', ''FAILURE''} \<longrightarrow>
      get_status b task_id = [(''status'', PyStr (state (AsyncResult b task_id)))]"
    by (simp add: get_status_def)
  have 6: "distinct (map fst (get_status b task_id))"
    by (simp add: get_status_def Let_def)
  have 7: "\<exists>s. map_of (get_status b task_id) ''status'' = Some (PyStr s)"
    by (simp add: get_status_def Let_def)
  from 1 2 3 4 5 6 7 show ?thesis by blast
qed

theorem get_status_shapes_witness:
  "get_status example_backend ''unknown'' = [(''status'', PyStr ''pending'')] \<and>
   get_status example_backend ''t-ok'' =
     [(''status'', PyStr ''completed''), (''result'', PyStr ''Revenue is 100'')] \<and>
   get_status example_backend ''t-bad'' =
     [(''status'', PyStr ''failed''), (''error'', PyStr ''database is locked'')] \<and>
   get_status example_backend ''t-run'' = [(''status'', PyStr ''STARTED'')]"
  using get_status_shapes [of example_backend "''unknown''"]
    get_status_shapes [of example_backend "''t-ok''"]
    get_status_shapes [of example_backend "''t-bad''"]
    get_status_shapes [of example_backend "''t-run''"]
  by (simp add: example_backend_def AsyncResult_def)

section \<open>Properties of the background job\<close>

lemma kickoff_financial_crew:
  "kickoff fw financial_crew inp =
     (case agent_llm fw analyze_financial_document inp [] of
        Inl e \<Rightarrow>
          ([Started ''analyze_financial_document'', Failed ''analyze_financial_document''], Inl e)
      | Inr out1 \<Rightarrow>
          (case agent_llm fw verify_financial_analysis inp [out1] of
             Inl e \<Rightarrow>
               ([Started ''analyze_financial_document'', Finished ''analyze_financial_document'',
                 Started ''verify_financial_analysis'', Failed ''verify_financial_analysis''], Inl e)
           | Inr out2 \<Rightarrow>
               ([Started ''analyze_financial_document'', Finished ''analyze_financial_document'',
                 Started ''verify_financial_analysis'', Finished ''verify_financial_analysis''],
                Inr out2)))"
  by (simp add: kickoff_def financial_crew_def analyze_financial_document_def
      verify_financial_analysis_def split: sum.split)

lemma insert_rows_single:
  "insert_rows now table [(f, q, r)] =
     table @ [\<lparr>row_id = next_row_id table, filename = f, query = q, result = r, created_at = now\<rparr>]"
  by simp

lemma process_document_Inr:
  assumes "process_document env table fp q = (table', trace, Inr res)"
  shows "table' = table @ [\<lparr>row_id = next_row_id table, filename = fp, query = q, result = res,
            created_at = utcnow env\<rparr>]"
    and "kickoff (framework env) financial_crew [(''query'', q), (''path'', fp)] = (trace, Inr res)"
    and "\<forall>op. db_fault env op = None"
proof -
  obtain tr out where k: "kickoff (framework env) financial_crew [(''query'', q), (''path'', fp)] = (tr, out)"
    by (cases "kickoff (framework env) financial_crew [(''query'', q), (''path'', fp)]")
  from assms k have *: "tr = trace \<and> out = Inr res \<and>
      db_fault env OpSessionLocal = None \<and> db_fault env OpAdd = None \<and>
      db_fault env OpCommit = None \<and> db_fault env OpClose = None \<and>
      table' = insert_rows (utcnow env) table [(fp, q, res)]"
    by (auto simp: process_document_def SessionLocal_def db_add_def db_commit_def db_close_def
        split: sum.splits option.splits)
  then show "table' = table @ [\<lparr>row_id = next_row_id table, filename = fp, query = q, result = res,
            created_at = utcnow env\<rparr>]"
    by simp
  from * k show "kickoff (framework env) financial_crew [(''query'', q), (''path'', fp)] = (trace, Inr res)"
    by simp
  from * show "\<forall>op. db_fault env op = None"
    by (metis db_op.exhaust)
qed

lemma process_document_table:
  "fst (process_document env table fp q) = table \<or>
   (\<exists>res. fst (process_document env table fp q) =
      table @ [\<lparr>row_id = next_row_id table, filename = fp, query = q, result = res,
                created_at = utcnow env\<rparr>] \<and>
      snd (kickoff (framework env) financial_crew [(''query'', q), (''path'', fp)]) = Inr res \<and>
      db_fault env OpCommit = None)"
  by (cases "kickoff (framework env) financial_crew [(''query'', q), (''path'', fp)]")
    (auto simp: process_document_def SessionLocal_def db_add_def db_commit_def db_close_def
        split: sum.splits option.splits)

lemma process_document_pipeline_failure:
  "kickoff (framework env) financial_crew [(''query'', q), (''path'', fp)] = (trace, Inl e) \<Longrightarrow>
   process_document env table fp q = (table, trace, Inl e)"
  by (simp add: process_document_def)

lemma row_id_less_next: "r \<in> set table \<Longrightarrow> row_id r < next_row_id table"
proof -
  have "x \<in> set xs \<Longrightarrow> x \<le> fold max xs (a::nat)" for x xs a
  proof (induction xs arbitrary: a)
    case Nil then show ?case by simp
  next
    case (Cons y ys)
    have "a \<le> fold max ys a" for a :: nat
      by (induction ys arbitrary: a) (auto intro: order_trans [OF max.cobounded2])
    from this [of "max y a"] Cons show ?case by auto
  qed
  then show "r \<in> set table \<Longrightarrow> row_id r < next_row_id table"
    by (force simp: next_row_id_def less_Suc_eq_le)
qed

lemma process_document_trace:
  "fst (snd (process_document env table fp q)) =
     fst (kickoff (framework env) financial_crew [(''query'', q), (''path'', fp)])"
  by (cases "kickoff (framework env) financial_crew [(''query'', q), (''path'', fp)]")
    (auto simp: process_document_def split: sum.splits prod.splits)

lemma kickoff_trace_cases:
  "fst (kickoff fw financial_crew inp) \<in> set sequential_traces"
  by (simp add: kickoff_financial_crew sequential_traces_def split: sum.split)

lemma sequential_traces_running:
  "trace \<in> set sequential_traces \<Longrightarrow> list_all (\<lambda>p. length (running p) \<le> 1) (prefixes trace)"
  by (auto simp: sequential_traces_def running_def)

lemma sequential_traces_order:
  "trace \<in> set sequential_traces \<Longrightarrow>
   list_all (\<lambda>p. p \<noteq> [] \<and> last p = Started ''verify_financial_analysis'' \<longrightarrow>
                Finished ''analyze_financial_document'' \<in> set (butlast p)) (prefixes trace)"
  by (auto simp: sequential_traces_def)

text \<open>
  C7. In every run of \<open>process_document\<close> the crew's trace is one of the three
  sequential traces: at no point of it are two tasks running, and whenever the verify task
  starts, the analyze task has finished before.
\<close>

theorem pipeline_sequential:
  "fst (snd (process_document env table fp q)) \<in> set sequential_traces \<and>
   list_all (\<lambda>p. length (running p) \<le> 1)
     (prefixes (fst (snd (process_document env table fp q)))) \<and>
   list_all (\<lambda>p. p \<noteq> [] \<and> last p = Started ''verify_financial_analysis'' \<longrightarrow>
                Finished ''analyze_financial_document'' \<in> set (butlast p))
     (prefixes (fst (snd (process_document env table fp q))))"
proof -
  have "fst (snd (process_document env table fp q)) \<in> set sequential_traces"
    by (simp only: process_document_trace kickoff_trace_cases)
  then show ?thesis
    using sequential_traces_running sequential_traces_order by blast
qed

lemma example_run:
  "process_document example_env [] ''data/u.pdf'' ''What is the revenue?'' =
     ([\<lparr>row_id = 1, filename = ''data/u.pdf'', query = ''What is the revenue?'',
        result = ''Verified: Revenue: 100'', created_at = 1700000000\<rparr>],
      [Started ''analyze_financial_document'', Finished ''analyze_financial_document'',
       Started ''verify_financial_analysis'', Finished ''verify_financial_analysis''],
      Inr ''Verified: Revenue: 100'')"
  by (simp add: process_document_def kickoff_financial_crew example_env_def example_llm_def
      analyze_financial_document_def verify_financial_analysis_def SessionLocal_def db_add_def
      db_commit_def db_close_def next_row_id_def)

theorem pipeline_sequential_witness:
  "fst (snd (process_document example_env [] ''data/u.pdf'' ''What is the revenue?'')) =
     [Started ''analyze_financial_document'', Finished ''analyze_financial_document'',
      Started ''verify_financial_analysis'', Finished ''verify_financial_analysis''] \<and>
   list_all (\<lambda>p. length (running p) \<le> 1)
     (prefixes [Started ''analyze_financial_document'', Finished ''analyze_financial_document'',
      Started ''verify_financial_analysis'', Finished ''verify_financial_analysis''])"
  using pipeline_sequential [of example_env "[]" "''data/u.pdf''" "''What is the revenue?''"]
  by (simp only: example_run fst_conv snd_conv)

lemma process_document_db_fault:
  assumes "snd (kickoff (framework env) financial_crew [(''query'', q), (''path'', fp)]) = Inr res"
    and "db_fault env op = Some e"
  shows "\<exists>table' e'. process_document env table fp q =
      (table', fst (kickoff (framework env) financial_crew [(''query'', q), (''path'', fp)]), Inl e')"
proof -
  obtain tr where k: "kickoff (framework env) financial_crew [(''query'', q), (''path'', fp)] = (tr, Inr res)"
    using assms(1) by (cases "kickoff (framework env) financial_crew [(''query'', q), (''path'', fp)]") auto
  show ?thesis
    using assms(2) k
    by (cases op)
      (auto simp: process_document_def SessionLocal_def db_add_def db_commit_def db_close_def
        split: sum.splits option.splits)
qed

lemma process_document_commit_fault:
  assumes "snd (kickoff (framework env) financial_crew [(''query'', q), (''path'', fp)]) = Inr res"
    and "db_fault env OpSessionLocal = None" and "db_fault env OpAdd = None"
    and "db_fault env OpCommit = Some e"
  shows "process_document env table fp q =
      (table, fst (kickoff (framework env) financial_crew [(''query'', q), (''path'', fp)]), Inl e)"
proof -
  obtain tr where k: "kickoff (framework env) financial_crew [(''query'', q), (''path'', fp)] = (tr, Inr res)"
    using assms(1) by (cases "kickoff (framework env) financial_crew [(''query'', q), (''path'', fp)]") auto
  show ?thesis
    using assms(2-4) k
    by (simp add: process_document_def SessionLocal_def db_add_def db_commit_def)
qed

text \<open>
  C4. When \<open>process_document\<close> returns its success value, the record (file path,
  query, result text) has been added to the table: success is reported only after the
  commit. The persistence calls are not inside any handler: if a database call raises after
  the crew has succeeded, the task raises (the job fails); a raise at the commit propagates
  as it is and writes nothing.
\<close>

theorem persist_before_success:
  "(process_document env table fp q = (table', trace, Inr res) \<longrightarrow>
      (\<exists>r. table' = table @ [r] \<and> filename r = fp \<and> query r = q \<and> result r = res)) \<and>
   (snd (kickoff (framework env) financial_crew [(''query'', q), (''path'', fp)]) = Inr res \<and>
    db_fault env op = Some e \<longrightarrow>
      (\<exists>table1 e1. process_document env table fp q =
         (table1, fst (kickoff (framework env) financial_crew [(''query'', q), (''path'', fp)]),
          Inl e1))) \<and>
   (snd (kickoff (framework env) financial_crew [(''query'', q), (''path'', fp)]) = Inr res \<and>
    db_fault env OpSessionLocal = None \<and> db_fault env OpAdd = None \<and>
    db_fault env OpCommit = Some e \<longrightarrow>
      process_document env table fp q =
        (table, fst (kickoff (framework env) financial_crew [(''query'', q), (''path'', fp)]),
         Inl e))"
proof (intro conjI impI)
  assume "process_document env table fp q = (table', trace, Inr res)"
  from process_document_Inr(1) [OF this]
  show "\<exists>r. table' = table @ [r] \<and> filename r = fp \<and> query r = q \<and> result r = res"
    by simp
next
  assume "snd (kickoff (framework env) financial_crew [(''query'', q), (''path'', fp)]) = Inr res \<and>
    db_fault env op = Some e"
  then show "\<exists>table1 e1. process_document env table fp q =
         (table1, fst (kickoff (framework env) financial_crew [(''query'', q), (''path'', fp)]),
          Inl e1)"
    using process_document_db_fault by blast
next
  assume "snd (kickoff (framework env) financial_crew [(''query'', q), (''path'', fp)]) = Inr res \<and>
    db_fault env OpSessionLocal = None \<and> db_fault env OpAdd = None \<and>
    db_fault env OpCommit = Some e"
  then show "process_document env table fp q =
        (table, fst (kickoff (framework env) financial_crew [(''query'', q), (''path'', fp)]),
         Inl e)"
    using process_document_commit_fault by blast
qed

lemma example_kickoff:
  "kickoff (framework example_env) financial_crew
     [(''query'', ''What is the revenue?''), (''path'', ''data/u.pdf'')] =
   ([Started ''analyze_financial_document'', Finished ''analyze_financial_document'',
     Started ''verify_financial_analysis'', Finished ''verify_financial_analysis''],
    Inr ''Verified: Revenue: 100'')"
  by (simp add: kickoff_financial_crew example_env_def example_llm_def
      analyze_financial_document_def verify_financial_analysis_def)

lemma locked_kickoff:
  "kickoff (framework locked_env) financial_crew
     [(''query'', ''What is the revenue?''), (''path'', ''data/u.pdf'')] =
   ([Started ''analyze_financial_document'', Finished ''analyze_financial_document'',
     Started ''verify_financial_analysis'', Finished ''verify_financial_analysis''],
    Inr ''Verified: Revenue: 100'')"
  using example_kickoff by (simp add: locked_env_def)

lemma failing_kickoff:
  "kickoff (framework failing_env) financial_crew
     [(''query'', ''What is the revenue?''), (''path'', ''data/u.pdf'')] =
   ([Started ''analyze_financial_document'', Failed ''analyze_financial_document''],
    Inl (Exception ''rate limit''))"
  by (simp add: kickoff_financial_crew failing_env_def)

theorem persist_before_success_witness:
  "(\<exists>r. fst (process_document example_env [] ''data/u.pdf'' ''What is the revenue?'') = [r] \<and>
        filename r = ''data/u.pdf'' \<and> query r = ''What is the revenue?'' \<and>
        result r = ''Verified: Revenue: 100'') \<and>
   process_document locked_env [] ''data/u.pdf'' ''What is the revenue?'' =
     ([],
      [Started ''analyze_financial_document'', Finished ''analyze_financial_document'',
       Started ''verify_financial_analysis'', Finished ''verify_financial_analysis''],
      Inl (Exception ''database is locked''))"
  using
    persist_before_success [of example_env "[]" "''data/u.pdf''" "''What is the revenue?''"
      "fst (process_document example_env [] ''data/u.pdf'' ''What is the revenue?'')"
      "fst (snd (process_document example_env [] ''data/u.pdf'' ''What is the revenue?''))"
      "''Verified: Revenue: 100''" OpCommit "Exception []"]
    persist_before_success [of locked_env "[]" "''data/u.pdf''" "''What is the revenue?''"
      "[]" "[]" "''Verified: Revenue: 100''" OpCommit "Exception ''database is locked''"]
  by (simp add: example_run locked_kickoff) (simp add: locked_env_def example_env_def)

text \<open>
  C5. A run of \<open>process_document\<close> adds at most one record; a pipeline failure adds
  none; a run that returns its success value adds exactly one; running twice on the same
  document and query adds two records with different ids (no deduplication).
\<close>

theorem at_most_one_record:
  "(fst (process_document env table fp q) = table \<or>
    (\<exists>r. fst (process_document env table fp q) = table @ [r])) \<and>
   (snd (kickoff (framework env) financial_crew [(''query'', q), (''path'', fp)]) = Inl e \<longrightarrow>
      fst (process_document env table fp q) = table) \<and>
   (process_document env table fp q = (table', trace, Inr res) \<longrightarrow>
      length table' = Suc (length table) \<and> take (length table) table' = table) \<and>
   (process_document env table fp q = (table', trace, Inr res) \<and>
    process_document env2 table' fp q = (table2, trace2, Inr res2) \<longrightarrow>
      (\<exists>a b. table2 = table @ [a, b] \<and> row_id a \<noteq> row_id b \<and>
         filename a = fp \<and> filename b = fp \<and> query a = q \<and> query b = q))"
proof (intro conjI impI)
  show "fst (process_document env table fp q) = table \<or>
    (\<exists>r. fst (process_document env table fp q) = table @ [r])"
    using process_document_table [of env table fp q] by blast
next
  assume "snd (kickoff (framework env) financial_crew [(''query'', q), (''path'', fp)]) = Inl e"
  then obtain tr where
    "kickoff (framework env) financial_crew [(''query'', q), (''path'', fp)] = (tr, Inl e)"
    by (cases "kickoff (framework env) financial_crew [(''query'', q), (''path'', fp)]") auto
  from process_document_pipeline_failure [OF this]
  show "fst (process_document env table fp q) = table" by simp
next
  assume "process_document env table fp q = (table', trace, Inr res)"
  from process_document_Inr(1) [OF this]
  show "length table' = Suc (length table)" by simp
next
  assume "process_document env table fp q = (table', trace, Inr res)"
  from process_document_Inr(1) [OF this]
  show "take (length table) table' = table" by simp
next
  assume a: "process_document env table fp q = (table', trace, Inr res) \<and>
    process_document env2 table' fp q = (table2, trace2, Inr res2)"
  define a where "a = \<lparr>row_id = next_row_id table, filename = fp, query = q, result = res,
            created_at = utcnow env\<rparr>"
  define b where "b = \<lparr>row_id = next_row_id table', filename = fp, query = q, result = res2,
            created_at = utcnow env2\<rparr>"
  from a have 1: "table' = table @ [a]"
    using process_document_Inr(1) [of env table fp q table' trace res] by (simp add: a_def)
  from a have 2: "table2 = table' @ [b]"
    using process_document_Inr(1) [of env2 table' fp q table2 trace2 res2] by (simp add: b_def)
  have "a \<in> set table'" using 1 by simp
  then have "row_id a < next_row_id table'" by (rule row_id_less_next)
  then have "row_id a \<noteq> row_id b" by (simp add: b_def)
  then have "table2 = table @ [a, b] \<and> row_id a \<noteq> row_id b \<and>
         filename a = fp \<and> filename b = fp \<and> query a = q \<and> query b = q"
    using 1 2 by (simp add: a_def b_def)
  then show "\<exists>a b. table2 = table @ [a, b] \<and> row_id a \<noteq> row_id b \<and>
         filename a = fp \<and> filename b = fp \<and> query a = q \<and> query b = q"
    by blast
qed

lemma example_run2:
  "process_document example_env
     [\<lparr>row_id = 1, filename = ''data/u.pdf'', query = ''What is the revenue?'',
        result = ''Verified: Revenue: 100'', created_at = 1700000000\<rparr>]
     ''data/u.pdf'' ''What is the revenue?'' =
     ([\<lparr>row_id = 1, filename = ''data/u.pdf'', query = ''What is the revenue?'',
        result = ''Verified: Revenue: 100'', created_at = 1700000000\<rparr>,
       \<lparr>row_id = 2, filename = ''data/u.pdf'', query = ''What is the revenue?'',
        result = ''Verified: Revenue: 100'', created_at = 1700000000\<rparr>],
      [Started ''analyze_financial_document'', Finished ''analyze_financial_document'',
       Started ''verify_financial_analysis'', Finished ''verify_financial_analysis''],
      Inr ''Verified: Revenue: 100'')"
  by (simp add: process_document_def example_kickoff)
    (simp add: example_env_def SessionLocal_def db_add_def db_commit_def db_close_def
      next_row_id_def)

lemma failing_run:
  "process_document failing_env [] ''data/u.pdf'' ''What is the revenue?'' =
     ([], [Started ''analyze_financial_document'', Failed ''analyze_financial_document''],
      Inl (Exception ''rate limit''))"
  by (simp add: process_document_def failing_kickoff)

theorem at_most_one_record_witness:
  "fst (process_document failing_env [] ''data/u.pdf'' ''What is the revenue?'') = [] \<and>
   length (fst (process_document example_env [] ''data/u.pdf'' ''What is the revenue?'')) = 1 \<and>
   (\<exists>a b. fst (process_document example_env
        (fst (process_document example_env [] ''data/u.pdf'' ''What is the revenue?''))
        ''data/u.pdf'' ''What is the revenue?'') = [a, b] \<and> row_id a \<noteq> row_id b \<and>
      filename a = ''data/u.pdf'' \<and> filename b = ''data/u.pdf'')"
proof -
  let ?fp = "''data/u.pdf''" and ?q = "''What is the revenue?''"
  let ?res = "''Verified: Revenue: 100''"
  let ?r1 = "\<lparr>row_id = 1, filename = ?fp, query = ?q, result = ?res, created_at = 1700000000\<rparr>"
  let ?r2 = "\<lparr>row_id = 2, filename = ?fp, query = ?q, result = ?res, created_at = 1700000000\<rparr>"
  let ?tr = "[Started ''analyze_financial_document'', Finished ''analyze_financial_document'',
       Started ''verify_financial_analysis'', Finished ''verify_financial_analysis'']"
  have k: "snd (kickoff (framework failing_env) financial_crew [(''query'', ?q), (''path'', ?fp)]) =
      Inl (Exception ''rate limit'')"
    by (simp only: failing_kickoff snd_conv)
  have 1: "fst (process_document failing_env [] ?fp ?q) = []"
    using at_most_one_record [of failing_env "[]" ?fp ?q
      "Exception ''rate limit''" "[]" "[]" "[]" failing_env "[]" "[]" "[]"] k
    by blast
  note T = at_most_one_record [of example_env "[]" ?fp ?q "Exception []" "[?r1]" ?tr ?res
      example_env "[?r1, ?r2]" ?tr ?res]
  have 2: "length [?r1] = Suc (length ([] :: analysis_result list))"
    using T example_run by blast
  have 3: "\<exists>a b. [?r1, ?r2] = [] @ [a, b] \<and> row_id a \<noteq> row_id b \<and>
      filename a = ?fp \<and> filename b = ?fp \<and> query a = ?q \<and> query b = ?q"
    using T example_run example_run2 by blast
  show ?thesis
    using 1 2 3 by (simp only: example_run example_run2 fst_conv append_Nil) simp
qed

section \<open>Properties of the front door\<close>

lemma str_nat_500: "str_nat 500 = ''500''"
  by code_simp

lemma os_path_join_data:
  "u \<noteq> [] \<Longrightarrow> hd u \<noteq> CHR ''/'' \<Longrightarrow> os_path_join UPLOAD_DIR (u @ ext) = ''data/'' @ u @ ext"
  by (cases u) (auto simp: os_path_join_def UPLOAD_DIR_def suffix_def)

lemma save_try_ok:
  "upload_filename f = Some name \<Longrightarrow> upload_read f = Inr contents \<Longrightarrow>
   write_fault env (upload_path env name) = None \<Longrightarrow>
   save_upload_file_try env srv f =
     (srv\<lparr>disk := (disk srv)(upload_path env name \<mapsto> contents)\<rparr>, Inr (upload_path env name))"
  by (simp add: save_upload_file_try_def upload_path_def Let_def)

lemma save_try_cases:
  "save_upload_file_try env srv f =
     (case upload_filename f of
        None \<Rightarrow> (srv, Inl (Exception ''expected str, bytes or os.PathLike object, not NoneType''))
      | Some name \<Rightarrow>
          (case upload_read f of
             Inl e \<Rightarrow> (srv, Inl e)
           | Inr contents \<Rightarrow>
               (case write_fault env (upload_path env name) of
                  Some e \<Rightarrow> (srv, Inl e)
                | None \<Rightarrow> (srv\<lparr>disk := (disk srv)(upload_path env name \<mapsto> contents)\<rparr>,
                            Inr (upload_path env name)))))"
  by (simp add: save_upload_file_try_def upload_path_def Let_def split: option.split sum.split)

lemma analyze_save_failure:
  "save_upload_file_try env srv f = (srv1, Inl e) \<Longrightarrow>
   analyze_document env srv f q =
     (srv1, Inl (HTTPException 500 (''500: File save failed: '' @ str_exn e)))"
  by (simp add: analyze_document_def analyze_document_try_def save_upload_file_def str_nat_500)

lemma rfind_from_absent: "c \<notin> set s \<Longrightarrow> rfind_from c s i found = found"
  by (induction s arbitrary: i found) auto

lemma rfind_from_last:
  "c \<notin> set b \<Longrightarrow> rfind_from c (a @ c # b) i found = i + int (length a)"
  by (induction a arbitrary: i found) (auto simp: rfind_from_absent)

lemma rfind_absent: "c \<notin> set s \<Longrightarrow> rfind c s = -1"
  by (simp add: rfind_def rfind_from_absent)

lemma rfind_last: "c \<notin> set b \<Longrightarrow> rfind c (a @ c # b) = int (length a)"
  by (simp add: rfind_def rfind_from_last)

lemma rfind_ge: "- 1 \<le> rfind c s"
proof (cases "c \<in> set s")
  case True
  then obtain a b where "s = a @ c # b" "c \<notin> set b"
    by (meson split_list_last)
  then show ?thesis by (simp add: rfind_last)
next
  case False
  then show ?thesis by (simp add: rfind_absent)
qed

lemma splitext_loop_eq:
  "splitext_loop p i d =
     (if \<exists>k. i \<le> k \<and> k < d \<and> take 1 (drop k p) \<noteq> ''.''
      then Some (take d p, drop d p) else None)"
proof (induction p i d rule: splitext_loop.induct)
  case (1 p i d)
  show ?case
  proof (cases "i < d")
    case False
    then show ?thesis by (subst splitext_loop.simps) auto
  next
    case True
    show ?thesis
    proof (cases "take 1 (drop i p) \<noteq> ''.''")
      case True
      with \<open>i < d\<close> show ?thesis
        by (subst splitext_loop.simps) auto
    next
      case False
      then have "(\<exists>k. i \<le> k \<and> k < d \<and> take 1 (drop k p) \<noteq> ''.'') \<longleftrightarrow>
          (\<exists>k. i + 1 \<le> k \<and> k < d \<and> take 1 (drop k p) \<noteq> ''.'')"
        by (metis Suc_eq_plus1 Suc_leI le_neq_implies_less add_leD1)
      with False \<open>i < d\<close> 1 show ?thesis
        by (subst splitext_loop.simps) simp
    qed
  qed
qed

lemma splitext_no_dot: "CHR ''.'' \<notin> set p \<Longrightarrow> splitext p = (p, [])"
  using rfind_ge [of "CHR ''/''" p] by (simp add: splitext_def rfind_absent Let_def)

lemma splitext_ext_shape:
  "snd (splitext p) = [] \<or>
   (\<exists>b. snd (splitext p) = CHR ''.'' # b \<and> CHR ''.'' \<notin> set b \<and> CHR ''/'' \<notin> set b)"
proof (cases "CHR ''.'' \<in> set p")
  case False
  then show ?thesis by (simp add: splitext_no_dot)
next
  case True
  then obtain a b where p: "p = a @ CHR ''.'' # b" and b: "CHR ''.'' \<notin> set b"
    by (meson split_list_last)
  then have dot: "rfind (CHR ''.'') p = int (length a)"
    by (simp add: rfind_last)
  show ?thesis
  proof (cases "CHR ''/'' \<in> set b")
    case True
    then obtain b1 b2 where "b = b1 @ CHR ''/'' # b2" "CHR ''/'' \<notin> set b2"
      by (meson split_list_last)
    then have "rfind (CHR ''/'') p = int (length (a @ CHR ''.'' # b1))"
      using rfind_last [of "CHR ''/''" b2 "a @ CHR ''.'' # b1"] p by simp
    then show ?thesis
      using dot by (simp add: splitext_def Let_def)
  next
    case False
    have "snd (splitext p) = [] \<or> snd (splitext p) = drop (length a) p"
      using dot by (auto simp: splitext_def Let_def splitext_loop_eq)
    then show ?thesis
      using p b False by auto
  qed
qed

lemma splitext_generated:
  assumes "u \<noteq> []" "CHR ''.'' \<notin> set u" "CHR ''/'' \<notin> set u"
    and "ext = [] \<or> (\<exists>b. ext = CHR ''.'' # b \<and> CHR ''.'' \<notin> set b \<and> CHR ''/'' \<notin> set b)"
  shows "snd (splitext (''data/'' @ u @ ext)) = ext"
proof (cases "ext = []")
  case True
  then show ?thesis
    using assms(2) by (simp add: splitext_no_dot)
next
  case False
  with assms(4) obtain b where
    ext: "ext = CHR ''.'' # b" and b: "CHR ''.'' \<notin> set b" "CHR ''/'' \<notin> set b"
    by blast
  let ?p = "''data/'' @ u @ ext"
  define d where "d = length (''data/'' @ u)"
  have dot: "rfind (CHR ''.'') ?p = int d"
    using rfind_last [of "CHR ''.''" b "''data/'' @ u"] b ext by (simp add: d_def)
  have sep: "rfind (CHR ''/'') ?p = 4"
    using rfind_last [of "CHR ''/''" "u @ ext" "''data''"] assms(3) b ext by simp
  obtain c u' where u: "u = c # u'" "c \<noteq> CHR ''.''"
    using assms(1,2) by (cases u) auto
  have "\<exists>k. 5 \<le> k \<and> k < d \<and> take 1 (drop k ?p) \<noteq> ''.''"
    using u by (intro exI [of _ 5]) (simp add: d_def)
  then have loop: "splitext_loop ?p 5 d = Some (take d ?p, drop d ?p)"
    by (simp only: splitext_loop_eq if_True)
  have gt: "4 < d"
    by (simp add: d_def)
  have dr: "drop d ?p = ext"
    by (simp add: d_def)
  have "splitext ?p = (take d ?p, drop d ?p)"
    unfolding splitext_def Let_def dot sep using loop gt by simp
  then show ?thesis
    by (simp only: dr snd_conv)
qed

lemma upload_path_ext:
  assumes "uuid4 env \<noteq> []" "CHR ''.'' \<notin> set (uuid4 env)" "CHR ''/'' \<notin> set (uuid4 env)"
  shows "snd (splitext (upload_path env name)) = snd (splitext name)"
proof -
  have "hd (uuid4 env) \<noteq> CHR ''/''"
    using assms(1,3) by (cases "uuid4 env") auto
  then have "upload_path env name = ''data/'' @ uuid4 env @ snd (splitext name)"
    using assms(1) by (simp add: upload_path_def os_path_join_data)
  then show ?thesis
    using splitext_generated [OF assms splitext_ext_shape [of name]] by simp
qed

lemma upload_path_unique:
  assumes "uuid4 env1 \<noteq> []" "hd (uuid4 env1) \<noteq> CHR ''/''"
    and "uuid4 env2 \<noteq> []" "hd (uuid4 env2) \<noteq> CHR ''/''"
    and "length (uuid4 env1) = length (uuid4 env2)" "uuid4 env1 \<noteq> uuid4 env2"
  shows "upload_path env1 name1 \<noteq> upload_path env2 name2"
  using assms by (simp add: upload_path_def os_path_join_data)

lemma splitext_report: "splitext ''report.pdf'' = (''report'', ''.pdf'')"
  by code_simp

lemma example_upload_path:
  "upload_path env ''report.pdf'' = os_path_join ''data'' (uuid4 env @ ''.pdf'')"
  by (simp add: upload_path_def splitext_report UPLOAD_DIR_def)

lemma example_path:
  "upload_path example_request ''report.pdf'' = ''data/3f2b8c1e-0d4a-4e7b-9a61-5c2d8e9f0a17.pdf''"
  by (simp add: example_upload_path example_request_def os_path_join_def suffix_def)

text \<open>
  C6. \<open>POST /analyze\<close>: when the upload can be read and written and the job submitted,
  the file is on disk under \<open>data/<uuid><ext>\<close>, with \<open>ext\<close> the extension of the
  original filename (the generated path has the same extension, and two different
  identifiers give two different paths), the job is in the queue and the response is
  \<open>{status: processing, task_id, message, file_path}\<close>. A raise while saving gives an HTTP
  500 whose detail is \<open>500: File save failed: <message>\<close>; a raise at submission gives
  an HTTP 500 whose detail is the message.
\<close>

theorem analyze_document_contract:
  "(upload_filename f = Some name \<and> upload_read f = Inr contents \<and>
    write_fault env (upload_path env name) = None \<and> delay_result env = Inr task_id \<longrightarrow>
      analyze_document env srv f q =
        (srv\<lparr>disk := (disk srv)(upload_path env name \<mapsto> contents),
             queue := queue srv @ [(task_id, upload_path env name, q)]\<rparr>,
         Inr [(''status'', PyStr ''processing''), (''task_id'', PyStr task_id),
              (''message'', PyStr ''Analysis started in background''),
              (''file_path'', PyStr (upload_path env name))])) \<and>
   (uuid4 env \<noteq> [] \<and> hd (uuid4 env) \<noteq> CHR ''/'' \<longrightarrow>
      upload_path env name = ''data/'' @ uuid4 env @ snd (splitext name)) \<and>
   (uuid4 env \<noteq> [] \<and> CHR ''.'' \<notin> set (uuid4 env) \<and> CHR ''/'' \<notin> set (uuid4 env) \<longrightarrow>
      snd (splitext (upload_path env name)) = snd (splitext name)) \<and>
   (uuid4 env \<noteq> [] \<and> hd (uuid4 env) \<noteq> CHR ''/'' \<and>
    uuid4 env2 \<noteq> [] \<and> hd (uuid4 env2) \<noteq> CHR ''/'' \<and>
    length (uuid4 env) = length (uuid4 env2) \<and> uuid4 env \<noteq> uuid4 env2 \<longrightarrow>
      upload_path env name \<noteq> upload_path env2 name2) \<and>
   (upload_filename f = None \<longrightarrow>
      analyze_document env srv f q =
        (srv, Inl (HTTPException 500 (''500: File save failed: '' @
           ''expected str, bytes or os.PathLike object, not NoneType'')))) \<and>
   (upload_filename f = Some name \<and> upload_read f = Inl e \<longrightarrow>
      analyze_document env srv f q =
        (srv, Inl (HTTPException 500 (''500: File save failed: '' @ str_exn e)))) \<and>
   (upload_filename f = Some name \<and> upload_read f = Inr contents \<and>
    write_fault env (upload_path env name) = Some e \<longrightarrow>
      analyze_document env srv f q =
        (srv, Inl (HTTPException 500 (''500: File save failed: '' @ str_exn e)))) \<and>
   (upload_filename f = Some name \<and> upload_read f = Inr contents \<and>
    write_fault env (upload_path env name) = None \<and> delay_result env = Inl e \<longrightarrow>
      analyze_document env srv f q =
        (srv\<lparr>disk := (disk srv)(upload_path env name \<mapsto> contents)\<rparr>,
         Inl (HTTPException 500 (str_exn e))))"
proof (intro conjI impI)
  assume "upload_filename f = Some name \<and> upload_read f = Inr contents \<and>
    write_fault env (upload_path env name) = None \<and> delay_result env = Inr task_id"
  then show "analyze_document env srv f q =
        (srv\<lparr>disk := (disk srv)(upload_path env name \<mapsto> contents),
             queue := queue srv @ [(task_id, upload_path env name, q)]\<rparr>,
         Inr [(''status'', PyStr ''processing''), (''task_id'', PyStr task_id),
              (''message'', PyStr ''Analysis started in background''),
              (''file_path'', PyStr (upload_path env name))])"
    by (simp add: analyze_document_def analyze_document_try_def save_upload_file_def save_try_ok)
next
  assume "uuid4 env \<noteq> [] \<and> hd (uuid4 env) \<noteq> CHR ''/''"
  then show "upload_path env name = ''data/'' @ uuid4 env @ snd (splitext name)"
    by (simp add: upload_path_def os_path_join_data)
next
  assume "uuid4 env \<noteq> [] \<and> CHR ''.'' \<notin> set (uuid4 env) \<and> CHR ''/'' \<notin> set (uuid4 env)"
  then show "snd (splitext (upload_path env name)) = snd (splitext name)"
    using upload_path_ext by blast
next
  assume "uuid4 env \<noteq> [] \<and> hd (uuid4 env) \<noteq> CHR ''/'' \<and>
    uuid4 env2 \<noteq> [] \<and> hd (uuid4 env2) \<noteq> CHR ''/'' \<and>
    length (uuid4 env) = length (uuid4 env2) \<and> uuid4 env \<noteq> uuid4 env2"
  then show "upload_path env name \<noteq> upload_path env2 name2"
    using upload_path_unique by blast
next
  assume "upload_filename f = None"
  then have "save_upload_file_try env srv f =
      (srv, Inl (Exception ''expected str, bytes or os.PathLike object, not NoneType''))"
    by (simp add: save_try_cases)
  from analyze_save_failure [OF this]
  show "analyze_document env srv f q =
        (srv, Inl (HTTPException 500 (''500: File save failed: '' @
           ''expected str, bytes or os.PathLike object, not NoneType'')))"
    by simp
next
  assume "upload_filename f = Some name \<and> upload_read f = Inl e"
  then have "save_upload_file_try env srv f = (srv, Inl e)"
    by (simp add: save_try_cases)
  then show "analyze_document env srv f q =
        (srv, Inl (HTTPException 500 (''500: File save failed: '' @ str_exn e)))"
    by (rule analyze_save_failure)
next
  assume "upload_filename f = Some name \<and> upload_read f = Inr contents \<and>
    write_fault env (upload_path env name) = Some e"
  then have "save_upload_file_try env srv f = (srv, Inl e)"
    by (simp add: save_try_cases)
  then show "analyze_document env srv f q =
        (srv, Inl (HTTPException 500 (''500: File save failed: '' @ str_exn e)))"
    by (rule analyze_save_failure)
next
  assume "upload_filename f = Some name \<and> upload_read f = Inr contents \<and>
    write_fault env (upload_path env name) = None \<and> delay_result env = Inl e"
  then show "analyze_document env srv f q =
        (srv\<lparr>disk := (disk srv)(upload_path env name \<mapsto> contents)\<rparr>,
         Inl (HTTPException 500 (str_exn e)))"
    by (simp add: analyze_document_def analyze_document_try_def save_upload_file_def save_try_ok)
qed

theorem analyze_document_contract_witness:
  "snd (analyze_document example_request empty_server example_upload ''What is the revenue?'') =
     Inr [(''status'', PyStr ''processing''),
          (''task_id'', PyStr ''7c9e6679-7425-40de-944b-e07fc1f90ae7''),
          (''message'', PyStr ''Analysis started in background''),
          (''file_path'', PyStr ''data/3f2b8c1e-0d4a-4e7b-9a61-5c2d8e9f0a17.pdf'')] \<and>
   queue (fst (analyze_document example_request empty_server example_upload
       ''What is the revenue?'')) =
     [(''7c9e6679-7425-40de-944b-e07fc1f90ae7'',
       ''data/3f2b8c1e-0d4a-4e7b-9a61-5c2d8e9f0a17.pdf'', ''What is the revenue?'')] \<and>
   disk (fst (analyze_document example_request empty_server example_upload
       ''What is the revenue?'')) ''data/3f2b8c1e-0d4a-4e7b-9a61-5c2d8e9f0a17.pdf'' =
     Some ''%PDF-1.4'' \<and>
   snd (splitext ''data/3f2b8c1e-0d4a-4e7b-9a61-5c2d8e9f0a17.pdf'') = ''.pdf'' \<and>
   snd (analyze_document disk_full_request empty_server example_upload ''What is the revenue?'') =
     Inl (HTTPException 500 ''500: File save failed: [Errno 28] No space left on device'') \<and>
   snd (analyze_document broker_down_request empty_server example_upload
       ''What is the revenue?'') =
     Inl (HTTPException 500 ''Error 111 connecting to localhost:6379. Connection refused.'')"
proof -
  let ?q = "''What is the revenue?''"
  have p2: "upload_path disk_full_request ''report.pdf'' = upload_path example_request ''report.pdf''"
    by (simp add: example_upload_path disk_full_request_def)
  have p3: "upload_path broker_down_request ''report.pdf'' = upload_path example_request ''report.pdf''"
    by (simp add: example_upload_path broker_down_request_def)
  have u: "uuid4 example_request \<noteq> [] \<and> CHR ''.'' \<notin> set (uuid4 example_request) \<and>
      CHR ''/'' \<notin> set (uuid4 example_request)"
    by (simp add: example_request_def)
  have 1: "analyze_document example_request empty_server example_upload ?q =
      (empty_server\<lparr>disk := (disk empty_server)(upload_path example_request ''report.pdf'' \<mapsto> ''%PDF-1.4''),
         queue := queue empty_server @
           [(''7c9e6679-7425-40de-944b-e07fc1f90ae7'', upload_path example_request ''report.pdf'', ?q)]\<rparr>,
       Inr [(''status'', PyStr ''processing''),
            (''task_id'', PyStr ''7c9e6679-7425-40de-944b-e07fc1f90ae7''),
            (''message'', PyStr ''Analysis started in background''),
            (''file_path'', PyStr (upload_path example_request ''report.pdf''))])"
    using analyze_document_contract [of example_upload "''report.pdf''" "''%PDF-1.4''"
        example_request "''7c9e6679-7425-40de-944b-e07fc1f90ae7''" empty_server ?q
        example_request "''report.pdf''" "Exception []"]
    by (simp add: example_upload_def example_request_def)
  have 2: "snd (splitext (upload_path example_request ''report.pdf'')) = snd (splitext ''report.pdf'')"
    using analyze_document_contract [of example_upload "''report.pdf''" "''%PDF-1.4''"
        example_request "''7c9e6679-7425-40de-944b-e07fc1f90ae7''" empty_server ?q
        example_request "''report.pdf''" "Exception []"] u
    by blast
  have 3: "analyze_document disk_full_request empty_server example_upload ?q =
      (empty_server, Inl (HTTPException 500 (''500: File save failed: '' @
         str_exn (Exception ''[Errno 28] No space left on device''))))"
    using analyze_document_contract [of example_upload "''report.pdf''" "''%PDF-1.4''"
        disk_full_request "[]" empty_server ?q
        example_request "''report.pdf''" "Exception ''[Errno 28] No space left on device''"]
    by (simp add: example_upload_def disk_full_request_def)
  have 4: "analyze_document broker_down_request empty_server example_upload ?q =
      (empty_server\<lparr>disk := (disk empty_server)(upload_path broker_down_request ''report.pdf'' \<mapsto> ''%PDF-1.4'')\<rparr>,
       Inl (HTTPException 500 (str_exn
         (Exception ''Error 111 connecting to localhost:6379. Connection refused.''))))"
    using analyze_document_contract [of example_upload "''report.pdf''" "''%PDF-1.4''"
        broker_down_request "[]" empty_server ?q
        example_request "''report.pdf''"
        "Exception ''Error 111 connecting to localhost:6379. Connection refused.''"]
    by (simp add: example_upload_def broker_down_request_def example_request_def)
  show ?thesis
    using 2
    by (simp only: 1 3 4 fst_conv snd_conv)
      (simp add: example_path splitext_report empty_server_def)
qed

section \<open>From the upload to the persisted record\<close>

lemma analyze_document_Inr:
  assumes "analyze_document renv srv f q = (srv', Inr resp)"
    and "upload_filename f = Some name"
  shows "\<exists>task_id. queue srv' = queue srv @ [(task_id, upload_path renv name, q)] \<and>
     resp = [(''status'', PyStr ''processing''), (''task_id'', PyStr task_id),
             (''message'', PyStr ''Analysis started in background''),
             (''file_path'', PyStr (upload_path renv name))]"
  using assms
  by (auto simp: analyze_document_def analyze_document_try_def save_upload_file_def
      save_try_cases split: sum.splits option.splits prod.splits)

text \<open>
  C9. The record a successful job persists has, as its filename, the path the worker was
  given and, as its result, the very string the task returns. For a job submitted through
  \<open>POST /analyze\<close> that path is the server's generated path (the one in the response's
  \<open>file_path\<close>), which depends on the client's filename only through its extension.
\<close>

theorem record_fields:
  "(process_document env table fp q = (table', trace, Inr res) \<longrightarrow>
      table' \<noteq> [] \<and> filename (last table') = fp \<and> result (last table') = res) \<and>
   (analyze_document renv srv f q = (srv', Inr resp) \<and> upload_filename f = Some name \<and>
    process_document env table (fst (snd (last (queue srv')))) (snd (snd (last (queue srv')))) =
      (table', trace, Inr res) \<longrightarrow>
      filename (last table') = upload_path renv name \<and> query (last table') = q \<and>
      result (last table') = res \<and>
      map_of resp ''file_path'' = Some (PyStr (filename (last table')))) \<and>
   (snd (splitext name) = snd (splitext name2) \<longrightarrow>
      upload_path renv name = upload_path renv name2)"
proof (intro conjI impI)
  assume "process_document env table fp q = (table', trace, Inr res)"
  from process_document_Inr(1) [OF this]
  show "table' \<noteq> []" "filename (last table') = fp" "result (last table') = res"
    by simp_all
next
  assume a: "analyze_document renv srv f q = (srv', Inr resp) \<and> upload_filename f = Some name \<and>
    process_document env table (fst (snd (last (queue srv')))) (snd (snd (last (queue srv')))) =
      (table', trace, Inr res)"
  then obtain task_id where
    qu: "queue srv' = queue srv @ [(task_id, upload_path renv name, q)]" and
    resp: "resp = [(''status'', PyStr ''processing''), (''task_id'', PyStr task_id),
             (''message'', PyStr ''Analysis started in background''),
             (''file_path'', PyStr (upload_path renv name))]"
    using analyze_document_Inr by blast
  from a qu have "process_document env table (upload_path renv name) q = (table', trace, Inr res)"
    by simp
  from process_document_Inr(1) [OF this]
  have t: "filename (last table') = upload_path renv name \<and> query (last table') = q \<and>
      result (last table') = res"
    by simp
  then show "filename (last table') = upload_path renv name" "query (last table') = q"
    "result (last table') = res"
    by simp_all
  from t resp show "map_of resp ''file_path'' = Some (PyStr (filename (last table')))"
    by simp
next
  assume "snd (splitext name) = snd (splitext name2)"
  then show "upload_path renv name = upload_path renv name2"
    by (simp add: upload_path_def)
qed

lemma example_run_any:
  "process_document example_env [] fp q =
     ([\<lparr>row_id = 1, filename = fp, query = q,
        result = ''Verified: Revenue: 100'', created_at = 1700000000\<rparr>],
      [Started ''analyze_financial_document'', Finished ''analyze_financial_document'',
       Started ''verify_financial_analysis'', Finished ''verify_financial_analysis''],
      Inr ''Verified: Revenue: 100'')"
  by (simp add: process_document_def kickoff_financial_crew example_env_def example_llm_def
      analyze_financial_document_def verify_financial_analysis_def SessionLocal_def db_add_def
      db_commit_def db_close_def next_row_id_def)

lemma example_analyze:
  "analyze_document example_request empty_server example_upload q =
     (empty_server\<lparr>disk := (disk empty_server)
          (''data/3f2b8c1e-0d4a-4e7b-9a61-5c2d8e9f0a17.pdf'' \<mapsto> ''%PDF-1.4''),
        queue := [(''7c9e6679-7425-40de-944b-e07fc1f90ae7'',
                   ''data/3f2b8c1e-0d4a-4e7b-9a61-5c2d8e9f0a17.pdf'', q)]\<rparr>,
      Inr [(''status'', PyStr ''processing''),
           (''task_id'', PyStr ''7c9e6679-7425-40de-944b-e07fc1f90ae7''),
           (''message'', PyStr ''Analysis started in background''),
           (''file_path'', PyStr ''data/3f2b8c1e-0d4a-4e7b-9a61-5c2d8e9f0a17.pdf'')])"
proof -
  have "save_upload_file_try example_request empty_server example_upload =
      (empty_server\<lparr>disk := (disk empty_server)
          (upload_path example_request ''report.pdf'' \<mapsto> ''%PDF-1.4'')\<rparr>,
       Inr (upload_path example_request ''report.pdf''))"
    by (rule save_try_ok) (simp_all add: example_upload_def example_request_def)
  then show ?thesis
    by (simp add: analyze_document_def analyze_document_try_def save_upload_file_def
        example_path)
      (simp add: example_request_def empty_server_def)
qed

theorem record_fields_witness:
  "filename (last (fst (process_document example_env []
       ''data/3f2b8c1e-0d4a-4e7b-9a61-5c2d8e9f0a17.pdf'' ''What is the revenue?''))) =
     ''data/3f2b8c1e-0d4a-4e7b-9a61-5c2d8e9f0a17.pdf'' \<and>
   result (last (fst (process_document example_env []
       ''data/3f2b8c1e-0d4a-4e7b-9a61-5c2d8e9f0a17.pdf'' ''What is the revenue?''))) =
     ''Verified: Revenue: 100'' \<and>
   upload_filename example_upload = Some ''report.pdf'' \<and>
   upload_path example_request ''report.pdf'' = upload_path example_request ''scan.v2.pdf''"
proof -
  let ?fp = "''data/3f2b8c1e-0d4a-4e7b-9a61-5c2d8e9f0a17.pdf''" and ?q = "''What is the revenue?''"
  let ?row = "\<lparr>row_id = 1, filename = ?fp, query = ?q,
        result = ''Verified: Revenue: 100'', created_at = 1700000000\<rparr>"
  let ?tr = "[Started ''analyze_financial_document'', Finished ''analyze_financial_document'',
       Started ''verify_financial_analysis'', Finished ''verify_financial_analysis'']"
  let ?srv = "empty_server\<lparr>disk := (disk empty_server)(?fp \<mapsto> ''%PDF-1.4''),
        queue := [(''7c9e6679-7425-40de-944b-e07fc1f90ae7'', ?fp, ?q)]\<rparr>"
  let ?resp = "[(''status'', PyStr ''processing''),
           (''task_id'', PyStr ''7c9e6679-7425-40de-944b-e07fc1f90ae7''),
           (''message'', PyStr ''Analysis started in background''),
           (''file_path'', PyStr ?fp)]"
  note T = record_fields [of example_env "[]" ?fp ?q "[?row]" ?tr "''Verified: Revenue: 100''"
      example_request empty_server example_upload ?srv ?resp "''report.pdf''" "''scan.v2.pdf''"]
  have e: "snd (splitext ''report.pdf'') = snd (splitext ''scan.v2.pdf'')"
    by code_simp
  have r: "process_document example_env [] ?fp ?q = ([?row], ?tr, Inr ''Verified: Revenue: 100'')"
    by (rule example_run_any)
  have a: "analyze_document example_request empty_server example_upload ?q = (?srv, Inr ?resp)"
    by (rule example_analyze)
  have u: "upload_filename example_upload = Some ''report.pdf''"
    by (simp add: example_upload_def)
  have p: "process_document example_env [] (fst (snd (last (queue ?srv))))
      (snd (snd (last (queue ?srv)))) = ([?row], ?tr, Inr ''Verified: Revenue: 100'')"
    using r by simp
  have 1: "filename (last [?row]) = ?fp \<and> result (last [?row]) = ''Verified: Revenue: 100''"
    using T r by blast
  have 2: "filename (last [?row]) = upload_path example_request ''report.pdf''"
    using T a u p by blast
  have 3: "upload_path example_request ''report.pdf'' = upload_path example_request ''scan.v2.pdf''"
    using T e by blast
  show ?thesis
    using 1 2 3 u by (simp only: r fst_conv)
qed

end
